theory Spec2Isabelle
  imports Complex_Main "HOL-Library.Word" "HOL-Library.Sublist"
begin

section \<open>Values, exceptions and the libraries the program calls\<close>

text \<open>
  The program is one Python module, \<^verbatim>\<open>NetworkRequestReponseEncrypterDecrypter.py\<close>. Its own
  code is the padding, the base64 re-padding, the error handling of the encoder and the
  decoder, and the request driver. Everything else is done by libraries (\<^verbatim>\<open>json\<close>,
  \<^verbatim>\<open>zlib\<close>, \<^verbatim>\<open>Cryptodome\<close>, \<^verbatim>\<open>base64\<close>, \<^verbatim>\<open>requests\<close>), which are not part of
  the repository: the model takes them as a parameter, a record of functions, and each of them
  may raise.

  A Python \<^verbatim>\<open>str\<close> is a \<^typ>\<open>string\<close>, one \<^typ>\<open>char\<close> for each code point (so code
  points above 255 are outside the model), and \<^verbatim>\<open>bytes\<close> are a list of 8-bit words.
\<close>

type_synonym byte = "8 word"

datatype pyfloat = Finite real | PosInf | NegInf | NaN

text \<open>The values \<^verbatim>\<open>json.loads\<close> returns and \<^verbatim>\<open>json.dumps\<close> takes; a dict keeps its items in order.\<close>

datatype pyval =
    PNone
  | PBool bool
  | PInt int
  | PFloat pyfloat
  | PStr string
  | PList "pyval list"
  | PDict "(string \<times> pyval) list"

text \<open>An exception, with the text that \<^verbatim>\<open>str(e)\<close> and \<^verbatim>\<open>f"{e}"\<close> give.\<close>

datatype exn = Exn string

fun exn_text :: "exn \<Rightarrow> string" where
  "exn_text (Exn m) = m"

record libs =
  json_dumps :: "pyval \<Rightarrow> exn + string"
    \<comment> \<open>\<^verbatim>\<open>json.dumps(v, separators=(',', ':'), sort_keys=False, ensure_ascii=True)\<close>\<close>
  deflate_raw :: "byte list \<Rightarrow> exn + byte list"
    \<comment> \<open>\<^verbatim>\<open>zlib.compressobj(level=1, method=zlib.DEFLATED, wbits=-15)\<close>, \<^verbatim>\<open>compress\<close> then \<^verbatim>\<open>flush\<close>\<close>
  aes_cbc_encrypt :: "byte list \<Rightarrow> byte list \<Rightarrow> byte list \<Rightarrow> exn + byte list"
    \<comment> \<open>\<^verbatim>\<open>AES.new(key, AES.MODE_CBC, iv).encrypt(data)\<close>\<close>
  aes_cbc_decrypt :: "byte list \<Rightarrow> byte list \<Rightarrow> byte list \<Rightarrow> exn + byte list"
    \<comment> \<open>\<^verbatim>\<open>AES.new(key, AES.MODE_CBC, iv).decrypt(data)\<close>\<close>
  rsa_pkcs1_encrypt :: "string \<Rightarrow> byte list \<Rightarrow> exn + byte list"
    \<comment> \<open>\<^verbatim>\<open>PKCS1_v1_5.new(RSA.import_key(pem)).encrypt(data)\<close>\<close>
  b64decode :: "string \<Rightarrow> exn + byte list"
    \<comment> \<open>\<^verbatim>\<open>base64.b64decode(s)\<close> on a \<^verbatim>\<open>str\<close>\<close>
  inflate_raw :: "byte list \<Rightarrow> exn + byte list"
    \<comment> \<open>\<^verbatim>\<open>zlib.decompress(data, wbits=-15)\<close>\<close>
  utf8_decode :: "byte list \<Rightarrow> exn + string"
    \<comment> \<open>\<^verbatim>\<open>data.decode('utf-8')\<close>\<close>
  json_loads :: "string \<Rightarrow> exn + pyval"
    \<comment> \<open>\<^verbatim>\<open>json.loads(s)\<close>\<close>
  http_post_json :: "string \<Rightarrow> pyval \<Rightarrow> exn + pyval"
    \<comment> \<open>\<^verbatim>\<open>requests.post(url, json=body, headers=...)\<close>, \<^verbatim>\<open>raise_for_status()\<close>, \<^verbatim>\<open>.json()\<close>\<close>
  type_error :: "pyval \<Rightarrow> exn"
    \<comment> \<open>the \<^verbatim>\<open>TypeError\<close> of \<^verbatim>\<open>len\<close>, \<^verbatim>\<open>+=\<close> or \<^verbatim>\<open>b64decode\<close> on a value that is no \<^verbatim>\<open>str\<close>\<close>
  attribute_error :: "pyval \<Rightarrow> exn"
    \<comment> \<open>the \<^verbatim>\<open>AttributeError\<close> of \<^verbatim>\<open>.get\<close> on a value that is no dict\<close>

section \<open>Python's own operations\<close>

text \<open>\<^verbatim>\<open>s.encode('utf-8')\<close>: one byte below 128, two bytes from 128 to 255.\<close>

definition utf8_char :: "char \<Rightarrow> byte list" where
  "utf8_char c =
     (let n = (of_char c :: nat)
      in if n < 128 then [of_nat n] else [of_nat (192 + n div 64), of_nat (128 + n mod 64)])"

definition utf8_encode :: "string \<Rightarrow> byte list" where
  "utf8_encode s = concat (map utf8_char s)"

text \<open>
  \<^verbatim>\<open>base64.b64encode(data).decode('utf-8')\<close>: the standard alphabet, three bytes to four
  characters, \<^verbatim>\<open>=\<close> to fill the last group. It never raises.
\<close>

definition b64_alphabet :: string where
  "b64_alphabet = ''ABCDEFGHIJKLMNOPQRSTUVWXYZabcdefghijklmnopqrstuvwxyz0123456789+/''"

definition b64_char :: "nat \<Rightarrow> char" where
  "b64_char n = b64_alphabet ! n"

fun b64encode :: "byte list \<Rightarrow> string" where
  "b64encode [] = []"
| "b64encode [a] =
     [b64_char (unat a div 4), b64_char (unat a mod 4 * 16), CHR ''='', CHR ''='']"
| "b64encode [a, b] =
     [b64_char (unat a div 4), b64_char (unat a mod 4 * 16 + unat b div 16),
      b64_char (unat b mod 16 * 4), CHR ''='']"
| "b64encode (a # b # c # rest) =
     [b64_char (unat a div 4), b64_char (unat a mod 4 * 16 + unat b div 16),
      b64_char (unat b mod 16 * 4 + unat c div 64), b64_char (unat c mod 64)]
     @ b64encode rest"

text \<open>Truth value of a Python object, as \<^verbatim>\<open>if x:\<close> tests it.\<close>

fun truthy :: "pyval \<Rightarrow> bool" where
  "truthy PNone = False"
| "truthy (PBool b) = b"
| "truthy (PInt i) = (i \<noteq> 0)"
| "truthy (PFloat f) = (f \<noteq> Finite 0)"
| "truthy (PStr s) = (s \<noteq> [])"
| "truthy (PList xs) = (xs \<noteq> [])"
| "truthy (PDict kvs) = (kvs \<noteq> [])"

text \<open>\<^verbatim>\<open>d.get(k)\<close>: \<^verbatim>\<open>None\<close> when the key is absent, an \<^verbatim>\<open>AttributeError\<close> when \<^verbatim>\<open>d\<close> is no dict.\<close>

definition dict_get :: "(string \<times> pyval) list \<Rightarrow> string \<Rightarrow> pyval" where
  "dict_get kvs k = (case map_of kvs k of None \<Rightarrow> PNone | Some v \<Rightarrow> v)"

definition py_get :: "libs \<Rightarrow> pyval \<Rightarrow> string \<Rightarrow> exn + pyval" where
  "py_get L d k = (case d of PDict kvs \<Rightarrow> Inr (dict_get kvs k) | _ \<Rightarrow> Inl (attribute_error L d))"

section \<open>\<^verbatim>\<open>encrypt_aes_payload\<close>\<close>

definition AES_block_size :: nat where
  "AES_block_size = 16"

definition pad_len_of :: "byte list \<Rightarrow> nat" where
  "pad_len_of compressed_bytes = AES_block_size - (length compressed_bytes mod AES_block_size)"

definition padded_bytes_of :: "byte list \<Rightarrow> byte list" where
  "padded_bytes_of compressed_bytes =
     compressed_bytes @ replicate (pad_len_of compressed_bytes) (of_nat (pad_len_of compressed_bytes))"

text \<open>The body of the \<^verbatim>\<open>try\<close>: \<open>Inl\<close> is the exception that leaves it.\<close>

definition encrypt_aes_try :: "libs \<Rightarrow> pyval \<Rightarrow> string \<Rightarrow> string \<Rightarrow> exn + string" where
  "encrypt_aes_try L data_dict key_string iv_string =
     (case json_dumps L data_dict of
        Inl e \<Rightarrow> Inl e
      | Inr json_string \<Rightarrow>
          (case deflate_raw L (utf8_encode json_string) of
             Inl e \<Rightarrow> Inl e
           | Inr compressed_bytes \<Rightarrow>
               (let padded_bytes = padded_bytes_of compressed_bytes;
                    key_bytes = utf8_encode key_string;
                    iv_bytes = utf8_encode iv_string
                in case aes_cbc_encrypt L key_bytes iv_bytes padded_bytes of
                     Inl e \<Rightarrow> Inl e
                   | Inr encrypted_bytes \<Rightarrow> Inr (b64encode encrypted_bytes))))"

definition encrypt_aes_payload :: "libs \<Rightarrow> pyval \<Rightarrow> string \<Rightarrow> string \<Rightarrow> string" where
  "encrypt_aes_payload L data_dict key_string iv_string =
     (case encrypt_aes_try L data_dict key_string iv_string of
        Inr s \<Rightarrow> s
      | Inl e \<Rightarrow> ''AES Encryption Error: '' @ exn_text e)"

section \<open>\<^verbatim>\<open>encrypt_rsa\<close>\<close>

definition RSA_PUBLIC_KEY_PEM :: string where
  "RSA_PUBLIC_KEY_PEM =
     ''-----BEGIN PUBLIC KEY-----'' @ [CHR 0x0A] @
     ''MIGfMA0GCSqGSIb3DQEBAQUAA4GNADCBiQKBgQCx2UKNVOg0dYx1R3p7GNAXcrRQ'' @ [CHR 0x0A] @
     ''7QkiE43UFbHxLPJ8gpWFxhSb6ZoCGO/8AkAFEgroJ7NKUhRyq71vCjDFJh8n7zjA'' @ [CHR 0x0A] @
     ''6rgIxKOPNwndHlXBLBj60avRb14BrunQ5EijwGpUF9jUeLrLO3GNd39T4l1RC0jj'' @ [CHR 0x0A] @
     ''TBa0hpKpGNGfQAd7rwIDAQAB'' @ [CHR 0x0A] @
     ''-----END PUBLIC KEY-----''"

definition encrypt_rsa :: "libs \<Rightarrow> string \<Rightarrow> string" where
  "encrypt_rsa L data_string =
     (case rsa_pkcs1_encrypt L RSA_PUBLIC_KEY_PEM (utf8_encode data_string) of
        Inr encrypted_data \<Rightarrow> b64encode encrypted_data
      | Inl e \<Rightarrow> ''RSA Encryption Error: '' @ exn_text e)"

section \<open>\<^verbatim>\<open>decrypt_and_decompress_payload\<close>\<close>

text \<open>Lines 60 to 62: restore the \<^verbatim>\<open>=\<close> characters of a base64 string.\<close>

definition repad_b64 :: "string \<Rightarrow> string" where
  "repad_b64 encrypted_data_b64 =
     (let padding_needed = length encrypted_data_b64 mod 4
      in if padding_needed \<noteq> 0
         then encrypted_data_b64 @ replicate (4 - padding_needed) CHR ''=''
         else encrypted_data_b64)"

text \<open>
  Lines 68 to 71: \<^verbatim>\<open>padded_plaintext[-1]\<close> raises an \<^verbatim>\<open>IndexError\<close> on empty bytes, and the
  slice \<^verbatim>\<open>padded_plaintext[:-pad_len]\<close> is empty when \<^verbatim>\<open>pad_len\<close> exceeds the length.
\<close>

definition strip_padding :: "byte list \<Rightarrow> exn + byte list" where
  "strip_padding padded_plaintext =
     (if padded_plaintext = [] then Inl (Exn ''index out of range'')
      else
        (let pad_len = unat (last padded_plaintext)
         in if pad_len > AES_block_size \<or> pad_len = 0
            then Inl (Exn ''Invalid padding value.'')
            else Inr (take (length padded_plaintext - pad_len) padded_plaintext)))"

text \<open>
  The body of the \<^verbatim>\<open>try\<close>. The driver passes whatever the response holds under \<^verbatim>\<open>data\<close>;
  on a value that is no \<^verbatim>\<open>str\<close>, \<^verbatim>\<open>len\<close>, \<^verbatim>\<open>+=\<close> or \<^verbatim>\<open>b64decode\<close> raises a
  \<^verbatim>\<open>TypeError\<close>.
\<close>

definition decrypt_try :: "libs \<Rightarrow> pyval \<Rightarrow> string \<Rightarrow> string \<Rightarrow> exn + pyval" where
  "decrypt_try L encrypted_data_b64 key_string iv_string =
     (case encrypted_data_b64 of
        PStr s \<Rightarrow>
          (case b64decode L (repad_b64 s) of
             Inl e \<Rightarrow> Inl e
           | Inr encrypted_bytes \<Rightarrow>
               (let key_bytes = utf8_encode key_string;
                    iv_bytes = utf8_encode iv_string
                in case aes_cbc_decrypt L key_bytes iv_bytes encrypted_bytes of
                     Inl e \<Rightarrow> Inl e
                   | Inr padded_plaintext \<Rightarrow>
                       (case strip_padding padded_plaintext of
                          Inl e \<Rightarrow> Inl e
                        | Inr plaintext_bytes \<Rightarrow>
                            (case inflate_raw L plaintext_bytes of
                               Inl e \<Rightarrow> Inl e
                             | Inr decompressed_bytes \<Rightarrow>
                                 (case utf8_decode L decompressed_bytes of
                                    Inl e \<Rightarrow> Inl e
                                  | Inr text \<Rightarrow> json_loads L text)))))
      | _ \<Rightarrow> Inl (type_error L encrypted_data_b64))"

definition error_record :: "exn \<Rightarrow> pyval" where
  "error_record e = PDict [(''error'', PStr (''Decryption Failed: '' @ exn_text e))]"

definition decrypt_and_decompress_payload :: "libs \<Rightarrow> pyval \<Rightarrow> string \<Rightarrow> string \<Rightarrow> pyval" where
  "decrypt_and_decompress_payload L encrypted_data_b64 key_string iv_string =
     (case decrypt_try L encrypted_data_b64 key_string iv_string of
        Inr v \<Rightarrow> v
      | Inl e \<Rightarrow> error_record e)"

section \<open>\<^verbatim>\<open>perform_request\<close>\<close>

definition fixed_key :: string where
  "fixed_key = ''cfc0d8be37e5ca838da40740d6723a0f''"

definition fixed_iv :: string where
  "fixed_iv = ''7b242d789da2c4c7''"

definition plaintext_data :: "string \<Rightarrow> string \<Rightarrow> pyval" where
  "plaintext_data username password =
     PDict [(''versionCode'', PStr ''211''), (''from'', PStr ''1201''),
            (''fp'', PStr ''f271d21900168bbf9125654e33b3b6db''), (''referer'', PStr ''''),
            (''uuid'', PStr ''f6d98180-876d-11f0-bd09-fdf3fcb93db6''), (''cur'', PStr ''USD''),
            (''username'', PStr username), (''password'', PStr password), (''captcha'', PStr '''')]"

text \<open>Line 92: the three substring tests.\<close>

definition encryption_failed :: "string \<Rightarrow> string \<Rightarrow> string \<Rightarrow> bool" where
  "encryption_failed encrypted_data encrypted_key_rsa encrypted_iv_rsa \<longleftrightarrow>
     sublist ''Error'' encrypted_data \<or> sublist ''Error'' encrypted_key_rsa
     \<or> sublist ''Error'' encrypted_iv_rsa"

definition request_body_of :: "string \<Rightarrow> string \<Rightarrow> string \<Rightarrow> pyval" where
  "request_body_of encrypted_data encrypted_key_rsa encrypted_iv_rsa =
     PDict [(''data'', PStr encrypted_data), (''req_code'', PInt 4),
            (''key'', PStr encrypted_key_rsa), (''iv'', PStr encrypted_iv_rsa)]"

text \<open>Lines 101 to 106, on the parsed response.\<close>

definition is_hit_of :: "libs \<Rightarrow> pyval \<Rightarrow> bool" where
  "is_hit_of L encrypted_response_data =
     (if truthy encrypted_response_data
      then (case decrypt_and_decompress_payload L encrypted_response_data fixed_key fixed_iv of
              PDict kvs \<Rightarrow> truthy (dict_get kvs ''token'')
            | _ \<Rightarrow> False)
      else False)"

text \<open>Lines 97 to 108: send the request and classify the response.\<close>

definition send_and_classify :: "libs \<Rightarrow> string \<Rightarrow> pyval \<Rightarrow> exn + bool \<times> pyval" where
  "send_and_classify L url request_body =
     (case http_post_json L url request_body of
        Inl e \<Rightarrow> Inl e
      | Inr response_json \<Rightarrow>
          (case py_get L response_json ''data'' of
             Inl e \<Rightarrow> Inl e
           | Inr encrypted_response_data \<Rightarrow> Inr (is_hit_of L encrypted_response_data, response_json)))"

definition perform_try :: "libs \<Rightarrow> string \<Rightarrow> string \<Rightarrow> string \<Rightarrow> exn + bool \<times> pyval" where
  "perform_try L username password url =
     (let encrypted_data = encrypt_aes_payload L (plaintext_data username password) fixed_key fixed_iv;
          encrypted_key_rsa = encrypt_rsa L fixed_key;
          encrypted_iv_rsa = encrypt_rsa L fixed_iv
      in if encryption_failed encrypted_data encrypted_key_rsa encrypted_iv_rsa
         then Inl (Exn ''Encryption failed during payload creation.'')
         else send_and_classify L url (request_body_of encrypted_data encrypted_key_rsa encrypted_iv_rsa))"

definition perform_request :: "libs \<Rightarrow> string \<Rightarrow> string \<Rightarrow> string \<Rightarrow> bool \<times> string \<times> pyval" where
  "perform_request L username password url =
     (case perform_try L username password url of
        Inr (is_hit, response_json) \<Rightarrow> (is_hit, username @ '':'' @ password, response_json)
      | Inl e \<Rightarrow> (False, username @ '':'' @ password, PDict [(''error'', PStr (exn_text e))]))"

section \<open>What the claims speak of\<close>

text \<open>A record of string fields, as the encoder takes it.\<close>

definition str_record :: "(string \<times> string) list \<Rightarrow> pyval" where
  "str_record R = PDict (map (\<lambda>(k, s). (k, PStr s)) R)"

text \<open>
  The libraries succeed on the values one run of the encoder hands them, and their
  counterparts invert them there: \<^verbatim>\<open>json.loads\<close> after \<^verbatim>\<open>json.dumps\<close>, inflate after
  deflate, AES-CBC decryption after encryption under the same key and IV (which the library
  accepts only at its fixed lengths), \<^verbatim>\<open>b64decode\<close> after \<^verbatim>\<open>b64encode\<close>.
\<close>

definition libs_invert :: "libs \<Rightarrow> pyval \<Rightarrow> string \<Rightarrow> string \<Rightarrow> bool" where
  "libs_invert L v key_string iv_string =
     (case json_dumps L v of
        Inl e \<Rightarrow> False
      | Inr json_string \<Rightarrow>
          (case deflate_raw L (utf8_encode json_string) of
             Inl e \<Rightarrow> False
           | Inr compressed_bytes \<Rightarrow>
               (case aes_cbc_encrypt L (utf8_encode key_string) (utf8_encode iv_string)
                       (padded_bytes_of compressed_bytes) of
                  Inl e \<Rightarrow> False
                | Inr encrypted_bytes \<Rightarrow>
                    b64decode L (b64encode encrypted_bytes) = Inr encrypted_bytes
                    \<and> aes_cbc_decrypt L (utf8_encode key_string) (utf8_encode iv_string)
                          encrypted_bytes = Inr (padded_bytes_of compressed_bytes)
                    \<and> inflate_raw L compressed_bytes = Inr (utf8_encode json_string)
                    \<and> utf8_decode L (utf8_encode json_string) = Inr json_string
                    \<and> json_loads L json_string = Inr v)))"

text \<open>A base64 string without its trailing \<^verbatim>\<open>=\<close> characters.\<close>

definition strip_eq :: "string \<Rightarrow> string" where
  "strip_eq s = rev (dropWhile (\<lambda>c. c = CHR ''='') (rev s))"

text \<open>Valid PKCS#7 padding: the last byte \<open>n\<close> is from 1 to 16 and the last \<open>n\<close> bytes all equal it.\<close>

definition pkcs7_valid :: "byte list \<Rightarrow> bool" where
  "pkcs7_valid p =
     (p \<noteq> [] \<and> 1 \<le> unat (last p) \<and> unat (last p) \<le> 16 \<and> unat (last p) \<le> length p
      \<and> drop (length p - unat (last p)) p = replicate (unat (last p)) (last p))"

text \<open>Some stage of the decode path raises \<open>e\<close> on the string \<open>s\<close>.\<close>

definition decode_stage_fails :: "libs \<Rightarrow> string \<Rightarrow> string \<Rightarrow> string \<Rightarrow> exn \<Rightarrow> bool" where
  "decode_stage_fails L s key_string iv_string e =
     (case b64decode L (repad_b64 s) of
        Inl e1 \<Rightarrow> e = e1
      | Inr encrypted_bytes \<Rightarrow>
          (case aes_cbc_decrypt L (utf8_encode key_string) (utf8_encode iv_string) encrypted_bytes of
             Inl e2 \<Rightarrow> e = e2
           | Inr padded_plaintext \<Rightarrow>
               (case strip_padding padded_plaintext of
                  Inl e3 \<Rightarrow> e = e3
                | Inr plaintext_bytes \<Rightarrow>
                    (case inflate_raw L plaintext_bytes of
                       Inl e4 \<Rightarrow> e = e4
                     | Inr decompressed_bytes \<Rightarrow>
                         (case utf8_decode L decompressed_bytes of
                            Inl e5 \<Rightarrow> e = e5
                          | Inr text \<Rightarrow>
                              (case json_loads L text of Inl e6 \<Rightarrow> e = e6 | Inr v \<Rightarrow> False))))))"



text \<open>
  The encoder as the specification's example reads it: the first 16 bytes of the key string
  as the AES key. It differs from \<^const>\<open>encrypt_aes_try\<close> in \<open>key_bytes\<close> only.
\<close>

definition encrypt_aes_first16 :: "libs \<Rightarrow> pyval \<Rightarrow> string \<Rightarrow> string \<Rightarrow> exn + string" where
  "encrypt_aes_first16 L data_dict key_string iv_string =
     (case json_dumps L data_dict of
        Inl e \<Rightarrow> Inl e
      | Inr json_string \<Rightarrow>
          (case deflate_raw L (utf8_encode json_string) of
             Inl e \<Rightarrow> Inl e
           | Inr compressed_bytes \<Rightarrow>
               (let padded_bytes = padded_bytes_of compressed_bytes;
                    key_bytes = take 16 (utf8_encode key_string);
                    iv_bytes = utf8_encode iv_string
                in case aes_cbc_encrypt L key_bytes iv_bytes padded_bytes of
                     Inl e \<Rightarrow> Inl e
                   | Inr encrypted_bytes \<Rightarrow> Inr (b64encode encrypted_bytes))))"

section \<open>Recorded library results\<close>

text \<open>
  What the libraries return on the inputs used further down, computed with CPython 3.11
  (\<^verbatim>\<open>json\<close>, \<^verbatim>\<open>base64\<close>), zlib 1.2.13 and OpenSSL 3.0 (AES-CBC, and RSA PKCS#1 v1.5, which
  is randomised: one sample each). AES and base64 are fixed by their standards; another zlib
  may compress to other bytes.
\<close>

definition fixed_key_bytes :: "byte list" where
  "fixed_key_bytes =
     [0x63, 0x66, 0x63, 0x30, 0x64, 0x38, 0x62, 0x65, 0x33, 0x37, 0x65, 0x35,
      0x63, 0x61, 0x38, 0x33, 0x38, 0x64, 0x61, 0x34, 0x30, 0x37, 0x34, 0x30,
      0x64, 0x36, 0x37, 0x32, 0x33, 0x61, 0x30, 0x66]"

definition fixed_iv_bytes :: "byte list" where
  "fixed_iv_bytes =
     [0x37, 0x62, 0x32, 0x34, 0x32, 0x64, 0x37, 0x38, 0x39, 0x64, 0x61, 0x32,
      0x63, 0x34, 0x63, 0x37]"

definition example_json :: string where
  \<open>example_json =
     ''{"versionCode":"211","from":"1201","fp":"f271d21900168bbf9125654e33b3b6d'' @
     ''b","referer":"","uuid":"f6d98180-876d-11f0-bd09-fdf3fcb93db6","cur":"USD'' @
     ''","username":"a@b.com","password":"x","captcha":""}''\<close>

definition example_deflated :: "byte list" where
  "example_deflated =
     [0x1D, 0x8E, 0x41, 0x0E, 0xC2, 0x20, 0x10, 0x45, 0xEF, 0xC2, 0xBA, 0x18,
      0x06, 0x2C, 0x05, 0x57, 0x26, 0x7A, 0x03, 0xE3, 0x01, 0x18, 0x06, 0x62,
      0x17, 0x95, 0x06, 0xAC, 0x9A, 0x18, 0xEF, 0xEE, 0xE0, 0x6E, 0x5E, 0xF2,
      0xDE, 0xE4, 0x7F, 0xC4, 0x33, 0xD5, 0x36, 0x97, 0xFB, 0xA9, 0x50, 0x12,
      0x07, 0xA1, 0x01, 0xC4, 0x20, 0x72, 0x2D, 0x0B, 0x03, 0x68, 0xF5, 0xA7,
      0x95, 0xEF, 0xAC, 0x27, 0x20, 0x0D, 0x5E, 0x29, 0xB0, 0x0E, 0x31, 0x7B,
      0xD0, 0xA3, 0x1D, 0xF7, 0xC9, 0x18, 0x34, 0x68, 0x09, 0xB9, 0xAA, 0x29,
      0xA7, 0x9A, 0x2A, 0xCB, 0x0C, 0xDB, 0x36, 0x53, 0xCF, 0x2C, 0x79, 0x07,
      0x4E, 0x49, 0x37, 0x59, 0x92, 0x00, 0x59, 0x49, 0x24, 0xE5, 0x65, 0xA6,
      0x6C, 0x72, 0x44, 0x6F, 0x08, 0x2D, 0xDB, 0x71, 0xEB, 0xD9, 0xF5, 0x72,
      0xEE, 0x65, 0x4B, 0xF5, 0x1E, 0x96, 0xBE, 0x26, 0x1C, 0x71, 0x17, 0x79,
      0xCA, 0x20, 0xD6, 0xD0, 0xDA, 0xAB, 0xD4, 0xFE, 0xF2, 0xDD, 0xFD, 0xB0,
      0x3E, 0xE2, 0x2D, 0x30, 0x89, 0xEF, 0x0F]"

definition example_encrypted :: "byte list" where
  "example_encrypted =
     [0xBB, 0x6B, 0xBB, 0x7A, 0xDE, 0x2D, 0xCE, 0x4E, 0xDE, 0xB2, 0x36, 0x17,
      0xDF, 0x4D, 0xC7, 0x0D, 0x59, 0x63, 0xCB, 0x3E, 0x8C, 0x6D, 0x9C, 0x86,
      0x4D, 0x12, 0x9A, 0x32, 0x76, 0xA3, 0xE4, 0x4C, 0x5E, 0x72, 0x8F, 0xC1,
      0x75, 0x3E, 0xBC, 0x61, 0xA9, 0x07, 0x29, 0x5E, 0xA2, 0xB7, 0x2D, 0x95,
      0x32, 0x65, 0xB7, 0x6B, 0x79, 0xED, 0x4E, 0x10, 0x9E, 0x5F, 0xBD, 0x5A,
      0xE6, 0xB5, 0xF2, 0x2D, 0xCF, 0xA5, 0x3F, 0x06, 0x3F, 0x63, 0x0D, 0x9D,
      0xA9, 0x79, 0xF4, 0x8F, 0x53, 0x44, 0xF9, 0xD3, 0xE0, 0x1C, 0x13, 0x8E,
      0x7F, 0x91, 0xB6, 0xDD, 0x09, 0xE8, 0x68, 0xD1, 0x19, 0xF4, 0xAC, 0x4D,
      0xB2, 0x63, 0xD1, 0xF3, 0xF3, 0xC8, 0xDB, 0xD6, 0x40, 0x94, 0x24, 0x7B,
      0x26, 0xF3, 0x47, 0x38, 0xCE, 0xE9, 0xE6, 0xC6, 0x0C, 0xD4, 0x90, 0xAB,
      0xF6, 0xA8, 0x22, 0x90, 0xCC, 0x7D, 0xD8, 0x1B, 0x2B, 0xA4, 0x2D, 0x12,
      0x74, 0xBC, 0x75, 0x48, 0xE2, 0xE7, 0x5E, 0xD5, 0xBA, 0xA1, 0xC3, 0xEB,
      0xB8, 0x66, 0xDD, 0xE7, 0xC5, 0xB0, 0xC5, 0x4F, 0xEE, 0x29, 0xF9, 0x09,
      0x55, 0x45, 0xB0, 0x88]"

definition example_encrypted_aes128 :: "byte list" where
  "example_encrypted_aes128 =
     [0x82, 0x61, 0x36, 0x63, 0x23, 0xF7, 0x8A, 0x5B, 0x2C, 0xDD, 0x60, 0x37,
      0xC9, 0x99, 0x29, 0x3E, 0xC3, 0x4E, 0xD4, 0xE3, 0xE0, 0x39, 0x33, 0x64,
      0x16, 0x87, 0xA0, 0x5E, 0xBF, 0xC4, 0x90, 0x6A, 0x9C, 0x6E, 0x5C, 0x97,
      0x3B, 0xBC, 0x90, 0x7E, 0xD8, 0x22, 0x5D, 0xDB, 0x17, 0xDF, 0x56, 0x29,
      0xD2, 0x04, 0x2E, 0x7F, 0x20, 0x56, 0xBE, 0xD7, 0x32, 0xCA, 0xFE, 0x82,
      0x85, 0x25, 0x32, 0xCC, 0x62, 0xBA, 0xB0, 0xE4, 0x6D, 0xF1, 0x09, 0xAC,
      0x77, 0xAE, 0x12, 0x2B, 0x41, 0x9E, 0xE3, 0x67, 0xF0, 0xEE, 0x7B, 0x37,
      0x63, 0x32, 0xA5, 0x69, 0xD0, 0x76, 0x54, 0x1C, 0x67, 0x4A, 0x5D, 0xCB,
      0x03, 0x1A, 0x9A, 0xFD, 0x39, 0xFB, 0x22, 0xF0, 0x45, 0x5E, 0x67, 0xF3,
      0x19, 0xA4, 0x03, 0xB5, 0x6D, 0x95, 0xE0, 0xC5, 0x63, 0xF5, 0xEC, 0x50,
      0x1A, 0xD1, 0xBB, 0x2E, 0x34, 0x2D, 0x88, 0x0E, 0x20, 0x7A, 0x7C, 0x52,
      0x4F, 0x63, 0x47, 0xA0, 0x32, 0x0C, 0x0B, 0x5C, 0x60, 0xA9, 0x46, 0x9C,
      0x1D, 0x7D, 0x34, 0x00, 0x66, 0xC2, 0x51, 0x38, 0xFA, 0x2D, 0x7C, 0xF9,
      0x59, 0xD9, 0x95, 0xB5]"

definition flagged_json :: string where
  \<open>flagged_json =
     ''{"versionCode":"211","from":"1201","fp":"f271d21900168bbf9125654e33b3b6d'' @
     ''b","referer":"","uuid":"f6d98180-876d-11f0-bd09-fdf3fcb93db6","cur":"USD'' @
     ''","username":"a@b.com","password":"pw37642009","captcha":""}''\<close>

definition flagged_deflated :: "byte list" where
  "flagged_deflated =
     [0x1D, 0x8E, 0x41, 0x0E, 0xC2, 0x20, 0x10, 0x45, 0xEF, 0xC2, 0xBA, 0x18,
      0x06, 0x5A, 0x0A, 0xAE, 0x4C, 0xF4, 0x06, 0xC6, 0x03, 0x30, 0x0C, 0xC4,
      0x2E, 0x5A, 0x08, 0x58, 0xBB, 0x30, 0xDE, 0x5D, 0x70, 0x37, 0x6F, 0xF2,
      0xDF, 0xCF, 0xFF, 0xB0, 0x77, 0x28, 0x75, 0x49, 0xDB, 0x35, 0x51, 0x60,
      0x67, 0x26, 0x01, 0xD8, 0xC0, 0x62, 0x49, 0x6B, 0x03, 0x90, 0xE2, 0x4F,
      0xB9, 0xDD, 0x51, 0xCE, 0x40, 0x12, 0xAC, 0x10, 0xA0, 0x0D, 0x62, 0xB4,
      0x20, 0x27, 0x3D, 0x8D, 0x41, 0x29, 0x54, 0xA8, 0x09, 0x9B, 0x55, 0x42,
      0x0C, 0x25, 0x94, 0x16, 0x6E, 0xB0, 0xEF, 0x0B, 0x75, 0x4D, 0x93, 0x35,
      0x60, 0x04, 0x37, 0xB3, 0x26, 0x0E, 0x10, 0x05, 0x47, 0x12, 0x96, 0x47,
      0x8A, 0x2A, 0x7A, 0xB4, 0x8A, 0x50, 0xB7, 0xB4, 0xDF, 0xBB, 0xF6, 0xB8,
      0xDF, 0xBA, 0x59, 0x43, 0xD9, 0xDC, 0xDA, 0xD7, 0xB8, 0x0B, 0x9E, 0x7C,
      0x9B, 0x32, 0xB0, 0xEC, 0x6A, 0x3D, 0x52, 0xE9, 0x95, 0xF9, 0x50, 0xB3,
      0x1E, 0xA5, 0x10, 0xB6, 0x8B, 0x2E, 0xBF, 0xFC, 0xD3, 0xB5, 0x37, 0xFB,
      0xFE, 0x00]"

definition flagged_encrypted :: "byte list" where
  "flagged_encrypted =
     [0x84, 0x2F, 0x7E, 0x4E, 0x9F, 0xAD, 0x92, 0xD4, 0x2F, 0xAE, 0x97, 0x62,
      0x8D, 0xAE, 0xB4, 0x16, 0xC9, 0x8E, 0xDE, 0x86, 0xD1, 0x61, 0x47, 0x6D,
      0x0D, 0x52, 0xD7, 0xB3, 0x09, 0xAC, 0xC1, 0x28, 0x5F, 0x5E, 0xDF, 0x47,
      0x04, 0x4D, 0x17, 0x31, 0x0B, 0x0F, 0xF4, 0xE5, 0x9C, 0xC2, 0x12, 0xA4,
      0x8A, 0xDD, 0xFC, 0x2D, 0x27, 0xED, 0x9E, 0x32, 0x39, 0x36, 0x57, 0xD9,
      0x98, 0x6B, 0xCA, 0x51, 0x98, 0x52, 0x83, 0xB0, 0xBA, 0x9C, 0x73, 0x69,
      0xB7, 0x5A, 0x76, 0xCD, 0x12, 0xCE, 0x17, 0x1E, 0xA5, 0xD7, 0x46, 0x5C,
      0x40, 0xED, 0x36, 0x99, 0x4D, 0x59, 0x51, 0xAD, 0xDC, 0x51, 0x09, 0x69,
      0x49, 0x47, 0x64, 0xBF, 0xB1, 0xE5, 0x7B, 0x4A, 0xED, 0xC9, 0xB3, 0xC7,
      0x0F, 0x36, 0x8C, 0x44, 0x8F, 0xA8, 0x77, 0xE0, 0x25, 0x65, 0xA2, 0x75,
      0x33, 0xBE, 0x5D, 0x6C, 0xBC, 0x4E, 0xFE, 0xB0, 0xCE, 0x04, 0xC7, 0xE1,
      0x1A, 0x5F, 0xE0, 0xEA, 0x0A, 0xF6, 0x1F, 0x75, 0x1E, 0x1B, 0x35, 0x6A,
      0xCB, 0xD0, 0xC8, 0xB3, 0x54, 0x22, 0x88, 0x31, 0x2B, 0xAE, 0x8A, 0xF5,
      0xA6, 0x84, 0x7E, 0x0B]"

definition token_json :: string where
  \<open>token_json =
     ''{"token":"abc"}''\<close>

definition token_deflated :: "byte list" where
  "token_deflated =
     [0xAB, 0x56, 0x2A, 0xC9, 0xCF, 0x4E, 0xCD, 0x53, 0xB2, 0x52, 0x4A, 0x4C,
      0x4A, 0x56, 0xAA, 0x05, 0x00]"

definition token_encrypted :: "byte list" where
  "token_encrypted =
     [0x1C, 0x53, 0xB9, 0xDF, 0xCA, 0x76, 0xFF, 0xF1, 0xCF, 0x5E, 0xCB, 0x98,
      0xA8, 0x4A, 0xA6, 0x4A, 0x10, 0x1B, 0x00, 0xAC, 0xC0, 0x33, 0x7A, 0x94,
      0x76, 0x5C, 0xA6, 0x48, 0x91, 0x4D, 0x86, 0xF1]"

definition sloppy_padded :: "byte list" where
  "sloppy_padded =
     [0xAB, 0x56, 0x2A, 0xC9, 0xCF, 0x4E, 0xCD, 0x53, 0xB2, 0x52, 0x4A, 0x4C,
      0x4A, 0x56, 0xAA, 0x05, 0x00, 0xAA, 0xAA, 0xAA, 0xAA, 0xAA, 0xAA, 0xAA,
      0xAA, 0xAA, 0xAA, 0xAA, 0xAA, 0xAA, 0xAA, 0x0F]"

definition sloppy_encrypted :: "byte list" where
  "sloppy_encrypted =
     [0x1C, 0x53, 0xB9, 0xDF, 0xCA, 0x76, 0xFF, 0xF1, 0xCF, 0x5E, 0xCB, 0x98,
      0xA8, 0x4A, 0xA6, 0x4A, 0xCB, 0xE8, 0x53, 0x21, 0xFC, 0xBB, 0x8E, 0x2C,
      0x74, 0xCC, 0x8E, 0x55, 0x77, 0x35, 0x7F, 0x55]"

definition zero_decrypted :: "byte list" where
  "zero_decrypted =
     [0xD4, 0x0A, 0x98, 0x1D, 0xAC, 0xA7, 0xAC, 0xF2, 0xEB, 0x3E, 0x60, 0x76,
      0x15, 0x0E, 0x61, 0x80]"

definition rsa_key_ciphertext :: "byte list" where
  "rsa_key_ciphertext =
     [0xA3, 0x8A, 0x45, 0x54, 0x7B, 0xA2, 0xF4, 0x9D, 0xB1, 0x50, 0xAB, 0xA2,
      0x3A, 0xFB, 0x53, 0xEF, 0x27, 0x52, 0xAA, 0xC0, 0xB7, 0x2D, 0x44, 0x83,
      0xE6, 0x48, 0x4C, 0xB4, 0xCE, 0xAC, 0xED, 0x5C, 0x4E, 0x75, 0xC5, 0x64,
      0x51, 0x08, 0x6F, 0xDE, 0xF5, 0x6D, 0x5F, 0xF1, 0x6E, 0x9B, 0xFB, 0xDE,
      0x75, 0x92, 0x79, 0x91, 0x4A, 0x52, 0x7C, 0x68, 0x34, 0x7D, 0x83, 0xF0,
      0x6D, 0x5C, 0x48, 0xD5, 0x99, 0x78, 0xB6, 0x1E, 0x73, 0xD3, 0xE3, 0xBF,
      0x3F, 0x2D, 0x18, 0x2C, 0x9E, 0x1B, 0x4A, 0x3F, 0xCE, 0xB4, 0x1C, 0xEF,
      0x3B, 0xB1, 0xCC, 0x21, 0xBC, 0xE9, 0x25, 0xBA, 0x1F, 0xA4, 0xE4, 0x47,
      0x43, 0xE0, 0xC7, 0xC6, 0x16, 0x31, 0xA5, 0x6C, 0xAE, 0x77, 0x20, 0xCE,
      0x5E, 0x1F, 0x09, 0xAA, 0xDF, 0x74, 0xDD, 0xCC, 0x83, 0x63, 0xAC, 0x60,
      0xDF, 0xA9, 0x0C, 0xA2, 0xA3, 0xD8, 0x4A, 0x31]"

definition rsa_iv_ciphertext :: "byte list" where
  "rsa_iv_ciphertext =
     [0x77, 0xF0, 0x8B, 0x32, 0xD2, 0xE0, 0x3D, 0x75, 0xC9, 0xCA, 0x03, 0x0B,
      0x3B, 0x12, 0xAA, 0xCE, 0xDF, 0xB2, 0x38, 0x70, 0x18, 0x7E, 0x8C, 0xF2,
      0x66, 0x11, 0x1B, 0x89, 0x00, 0x65, 0x48, 0xFB, 0x36, 0x2B, 0x44, 0x11,
      0xBF, 0x23, 0x89, 0xAC, 0x0C, 0xD8, 0xE3, 0x5E, 0x8C, 0x7E, 0xE7, 0x89,
      0x25, 0x61, 0x94, 0xCC, 0x28, 0x95, 0xBC, 0x77, 0x0A, 0x00, 0x3D, 0xDB,
      0x7A, 0x72, 0xA9, 0x44, 0xF6, 0x70, 0x3D, 0x3B, 0x5F, 0x21, 0xBA, 0x7E,
      0xB9, 0xD7, 0x0A, 0x4C, 0xFA, 0x63, 0x53, 0x29, 0x90, 0x65, 0xCC, 0x0B,
      0x3D, 0xE5, 0x8C, 0x43, 0x6A, 0x20, 0x68, 0xBB, 0xD6, 0x62, 0xBB, 0xF9,
      0x82, 0xAD, 0x35, 0xAA, 0x49, 0x0F, 0xB0, 0x96, 0xA4, 0x81, 0x6D, 0x34,
      0xF1, 0xD3, 0x33, 0x2C, 0x87, 0xC8, 0x6F, 0xB3, 0x34, 0x6E, 0x80, 0x94,
      0x25, 0xB5, 0x22, 0xF4, 0x9D, 0x76, 0xDC, 0xD1]"

definition zero_block :: "byte list" where
  "zero_block = [0, 0, 0, 0, 0, 0, 0, 0, 0, 0, 0, 0, 0, 0, 0, 0]"

text \<open>A function known at the listed arguments only; elsewhere it raises.\<close>

definition recorded :: "('a \<times> 'b) list \<Rightarrow> 'a \<Rightarrow> exn + 'b" where
  "recorded table x = (case map_of table x of Some y \<Rightarrow> Inr y | None \<Rightarrow> Inl (Exn ''not recorded''))"

definition token_record :: pyval where
  "token_record = PDict [(''token'', PStr ''abc'')]"

definition stub_url :: string where
  "stub_url = ''http://localhost:8080/api/user/login''"

text \<open>
  The transport is a stub endpoint that answers the example request with the envelope of
  \<^verbatim>\<open>{"token":"abc"}\<close> under \<^verbatim>\<open>data\<close>.
\<close>

definition recorded_libs :: libs where
  "recorded_libs =
     \<lparr>json_dumps = recorded
        [(plaintext_data ''a@b.com'' ''x'', example_json),
         (plaintext_data ''a@b.com'' ''pw37642009'', flagged_json),
         (token_record, token_json)],
      deflate_raw = recorded
        [(utf8_encode example_json, example_deflated),
         (utf8_encode flagged_json, flagged_deflated),
         (utf8_encode token_json, token_deflated)],
      aes_cbc_encrypt = (\<lambda>key iv data. recorded
        [((fixed_key_bytes, fixed_iv_bytes, padded_bytes_of example_deflated), example_encrypted),
         ((take 16 fixed_key_bytes, fixed_iv_bytes, padded_bytes_of example_deflated),
          example_encrypted_aes128),
         ((fixed_key_bytes, fixed_iv_bytes, padded_bytes_of flagged_deflated), flagged_encrypted),
         ((fixed_key_bytes, fixed_iv_bytes, padded_bytes_of token_deflated), token_encrypted),
         ((fixed_key_bytes, fixed_iv_bytes, sloppy_padded), sloppy_encrypted)]
        (key, iv, data)),
      aes_cbc_decrypt = (\<lambda>key iv data. recorded
        [((fixed_key_bytes, fixed_iv_bytes, example_encrypted), padded_bytes_of example_deflated),
         ((fixed_key_bytes, fixed_iv_bytes, token_encrypted), padded_bytes_of token_deflated),
         ((fixed_key_bytes, fixed_iv_bytes, sloppy_encrypted), sloppy_padded),
         ((fixed_key_bytes, fixed_iv_bytes, zero_block), zero_decrypted),
         ((fixed_key_bytes, fixed_iv_bytes, []), [])]
        (key, iv, data)),
      rsa_pkcs1_encrypt = (\<lambda>pem data. recorded
        [((RSA_PUBLIC_KEY_PEM, fixed_key_bytes), rsa_key_ciphertext),
         ((RSA_PUBLIC_KEY_PEM, fixed_iv_bytes), rsa_iv_ciphertext)]
        (pem, data)),
      b64decode = recorded
        [(b64encode example_encrypted, example_encrypted),
         (b64encode token_encrypted, token_encrypted),
         (b64encode sloppy_encrypted, sloppy_encrypted),
         (''AAAAAAAAAAAAAAAAAAAAAA=='', zero_block),
         ([], [])],
      inflate_raw = recorded
        [(example_deflated, utf8_encode example_json),
         (token_deflated, utf8_encode token_json)],
      utf8_decode = recorded
        [(utf8_encode example_json, example_json),
         (utf8_encode token_json, token_json)],
      json_loads = recorded
        [(example_json, plaintext_data ''a@b.com'' ''x''),
         (token_json, token_record)],
      http_post_json = (\<lambda>url body. recorded
        [((stub_url,
           request_body_of (b64encode example_encrypted) (b64encode rsa_key_ciphertext)
             (b64encode rsa_iv_ciphertext)),
          PDict [(''data'', PStr (b64encode token_encrypted))])]
        (url, body)),
      type_error = (\<lambda>v. Exn ''argument should be a bytes-like object or ASCII string''),
      attribute_error = (\<lambda>v. Exn ''object has no attribute get'')\<rparr>"

text \<open>The fields of the specification's example record, in the order the driver builds them.\<close>

definition example_fields :: "(string \<times> string) list" where
  "example_fields =
     [(''versionCode'', ''211''), (''from'', ''1201''),
      (''fp'', ''f271d21900168bbf9125654e33b3b6db''), (''referer'', ''''),
      (''uuid'', ''f6d98180-876d-11f0-bd09-fdf3fcb93db6''), (''cur'', ''USD''),
      (''username'', ''a@b.com''), (''password'', ''x''), (''captcha'', '''')]"

section \<open>Padding\<close>

lemma pad_len_range: "1 \<le> pad_len_of cb \<and> pad_len_of cb \<le> 16"
  by (simp add: pad_len_of_def AES_block_size_def)

lemma pad_len_eq: "pad_len_of cb = 16 - length cb mod 16"
  by (simp add: pad_len_of_def AES_block_size_def)

lemma length_padded: "length (padded_bytes_of cb) mod 16 = 0"
  unfolding padded_bytes_of_def pad_len_of_def AES_block_size_def
  by simp presburger

lemma unat_pad_byte: "unat (of_nat (pad_len_of cb) :: byte) = pad_len_of cb"
  using pad_len_range [of cb] by (simp add: unat_of_nat)

lemma strip_padding_padded: "strip_padding (padded_bytes_of cb) = Inr cb"
  using pad_len_range [of cb]
  by (simp add: strip_padding_def padded_bytes_of_def unat_pad_byte AES_block_size_def)

lemma strip_padding_invalid:
  assumes "p \<noteq> []" and "unat (last p) = 0 \<or> unat (last p) > 16"
  shows "strip_padding p = Inl (Exn ''Invalid padding value.'')"
  using assms by (auto simp: strip_padding_def AES_block_size_def)

lemma strip_padding_last_byte:
  assumes "p \<noteq> []" and "1 \<le> unat (last p)" and "unat (last p) \<le> 16"
  shows "strip_padding p = Inr (take (length p - unat (last p)) p)"
  using assms by (simp add: strip_padding_def AES_block_size_def)

section \<open>Base64\<close>

lemma length_b64_alphabet: "length b64_alphabet = 64"
  by (simp add: b64_alphabet_def)

lemma b64_char_in: "n < 64 \<Longrightarrow> b64_char n \<in> set b64_alphabet"
  by (simp add: b64_char_def length_b64_alphabet)

lemma eq_notin_alphabet: "CHR ''='' \<notin> set b64_alphabet"
  by (simp add: b64_alphabet_def)

lemma space_notin_alphabet: "CHR '' '' \<notin> set b64_alphabet"
  by (simp add: b64_alphabet_def)

lemma unat_byte_less: "unat (a :: byte) < 256"
  using unsigned_less [of a, where ?'a = nat] by simp

lemma b64_index_bounds:
  fixes a b c :: byte
  shows "unat a div 4 < 64" and "unat a mod 4 * 16 < 64"
    and "unat a mod 4 * 16 + unat b div 16 < 64"
    and "unat b mod 16 * 4 < 64"
    and "unat b mod 16 * 4 + unat c div 64 < 64"
    and "unat c mod 64 < 64"
  using unat_byte_less [of a] unat_byte_less [of b] unat_byte_less [of c]
  by simp_all

text \<open>An encoding is characters of the alphabet, then at most two \<^verbatim>\<open>=\<close>, four to a group.\<close>

lemma b64encode_shape:
  "\<exists>body p. b64encode bs = body @ replicate p CHR ''='' \<and> p \<le> 2
      \<and> set body \<subseteq> set b64_alphabet \<and> length (body @ replicate p CHR ''='') mod 4 = 0"
proof (induction bs rule: b64encode.induct)
  case 1
  show ?case by simp
next
  case (2 a)
  let ?body = "[b64_char (unat a div 4), b64_char (unat a mod 4 * 16)]"
  have "b64encode [a] = ?body @ replicate 2 CHR ''=''"
    by (simp add: numeral_2_eq_2)
  moreover have "set ?body \<subseteq> set b64_alphabet"
    by (simp add: b64_char_in b64_index_bounds)
  ultimately show ?case
    by (intro exI [of _ ?body] exI [of _ 2]) simp
next
  case (3 a b)
  let ?body = "[b64_char (unat a div 4), b64_char (unat a mod 4 * 16 + unat b div 16),
      b64_char (unat b mod 16 * 4)]"
  have "b64encode [a, b] = ?body @ replicate 1 CHR ''=''"
    by simp
  moreover have "set ?body \<subseteq> set b64_alphabet"
    by (simp add: b64_char_in b64_index_bounds)
  ultimately show ?case
    by (intro exI [of _ ?body] exI [of _ 1]) simp
next
  case (4 a b c rest)
  from "4.IH" obtain body p where rest: "b64encode rest = body @ replicate p CHR ''=''" "p \<le> 2"
      "set body \<subseteq> set b64_alphabet" "length (body @ replicate p CHR ''='') mod 4 = 0"
    by auto
  let ?quad = "[b64_char (unat a div 4), b64_char (unat a mod 4 * 16 + unat b div 16),
      b64_char (unat b mod 16 * 4 + unat c div 64), b64_char (unat c mod 64)]"
  have "b64encode (a # b # c # rest) = (?quad @ body) @ replicate p CHR ''=''"
    using rest(1) by simp
  moreover have "set (?quad @ body) \<subseteq> set b64_alphabet"
    using rest(3) by (simp add: b64_char_in b64_index_bounds)
  moreover have "length ((?quad @ body) @ replicate p CHR ''='') mod 4 = 0"
    using rest(4) by simp
  ultimately show ?case
    using rest(2) by (intro exI [of _ "?quad @ body"] exI [of _ p]) simp
qed

lemma length_b64encode: "length (b64encode bs) mod 4 = 0"
  using b64encode_shape [of bs] by auto

lemma b64encode_chars: "set (b64encode bs) \<subseteq> set b64_alphabet \<union> {CHR ''=''}"
  using b64encode_shape [of bs] by auto

lemma repad_b64_aligned: "length s mod 4 = 0 \<Longrightarrow> repad_b64 s = s"
  by (simp add: repad_b64_def)

lemma repad_b64_b64encode: "repad_b64 (b64encode bs) = b64encode bs"
  by (simp add: repad_b64_aligned length_b64encode)

lemma repad_arith:
  fixes n p q :: nat
  assumes "(n + p) mod 4 = 0" and "p \<le> 2" and "q < p"
  shows "(n + q) mod 4 = 4 - (p - q)"
proof -
  from assms(1) obtain k where k: "n + p = 4 * k"
    by (auto simp: mod_eq_0_iff_dvd elim: dvdE)
  with assms(3) have "k \<noteq> 0" by auto
  then obtain j where j: "k = Suc j" by (cases k) auto
  have "n + q = (4 - (p - q)) + 4 * j"
    using k j assms(2,3) by simp
  then have "(n + q) mod 4 = (4 - (p - q)) mod 4"
    by simp
  also have "\<dots> = 4 - (p - q)"
    using assms(2,3) by simp
  finally show ?thesis .
qed

lemma repad_b64_restores:
  assumes "length (body @ replicate p CHR ''='') mod 4 = 0" and "p \<le> 2" and "q \<le> p"
  shows "repad_b64 (body @ replicate q CHR ''='') = body @ replicate p CHR ''=''"
proof (cases "q = p")
  case True
  then show ?thesis using assms(1) by (simp add: repad_b64_def)
next
  case False
  with assms have "q < p" by simp
  from assms(1) have "(length body + p) mod 4 = 0" by simp
  with \<open>q < p\<close> assms(2) have m: "(length body + q) mod 4 = 4 - (p - q)"
    by (rule_tac repad_arith)
  have r: "replicate q CHR ''='' @ replicate (p - q) CHR ''='' = replicate p CHR ''=''"
    using \<open>q < p\<close> by (simp add: replicate_add [symmetric])
  have "length (body @ replicate q CHR ''='') mod 4 = 4 - (p - q)"
    using m by simp
  moreover have "4 - (p - q) \<noteq> 0" "4 - (4 - (p - q)) = p - q"
    using \<open>q < p\<close> assms(2) by simp_all
  ultimately have "repad_b64 (body @ replicate q CHR ''='')
      = (body @ replicate q CHR ''='') @ replicate (p - q) CHR ''=''"
    unfolding repad_b64_def Let_def by (simp only: if_True not_False_eq_True refl)
  then show ?thesis using r by simp
qed

lemma strip_eq_body:
  assumes "CHR ''='' \<notin> set body"
  shows "strip_eq (body @ replicate p CHR ''='') = body"
proof -
  have "dropWhile (\<lambda>c. c = CHR ''='') (rev body) = rev body"
    using assms by (cases "rev body") auto
  moreover have "dropWhile (\<lambda>c. c = CHR ''='') (replicate p CHR ''='' @ rev body)
      = dropWhile (\<lambda>c. c = CHR ''='') (rev body)"
    by (rule dropWhile_append2) simp
  ultimately show ?thesis
    by (simp add: strip_eq_def)
qed

lemma repad_strip_b64encode: "repad_b64 (strip_eq (b64encode bs)) = b64encode bs"
proof -
  obtain body p where shape: "b64encode bs = body @ replicate p CHR ''=''" "p \<le> 2"
      "set body \<subseteq> set b64_alphabet" "length (body @ replicate p CHR ''='') mod 4 = 0"
    using b64encode_shape [of bs] by auto
  from shape(3) have "CHR ''='' \<notin> set body"
    using eq_notin_alphabet by auto
  then have "strip_eq (b64encode bs) = body @ replicate 0 CHR ''=''"
    using shape(1) by (simp add: strip_eq_body)
  then show ?thesis
    using repad_b64_restores [OF shape(4) shape(2), of 0] shape(1) by simp
qed

lemma repad_b64_appends:
  assumes "length s mod 4 \<noteq> 0"
  shows "\<exists>n. 1 \<le> n \<and> n \<le> 3 \<and> repad_b64 s = s @ replicate n CHR ''=''
           \<and> length (repad_b64 s) mod 4 = 0"
proof -
  let ?n = "4 - length s mod 4"
  have "length s mod 4 < 4" by simp
  with assms have "1 \<le> ?n" "?n \<le> 3" by simp_all
  moreover have "repad_b64 s = s @ replicate ?n CHR ''=''"
    using assms by (simp add: repad_b64_def)
  moreover have "(length s + ?n) mod 4 = 0"
    by presburger
  ultimately show ?thesis
    by (intro exI [of _ ?n]) simp
qed

lemma repad_b64_idem: "repad_b64 (repad_b64 s) = repad_b64 s"
proof (cases "length s mod 4 = 0")
  case True
  then show ?thesis by (simp add: repad_b64_aligned)
next
  case False
  then show ?thesis
    using repad_b64_appends [of s] by (auto simp: repad_b64_aligned)
qed

section \<open>The decoder on a string\<close>

lemma decrypt_try_PStr:
  "decrypt_try L (PStr s) k iv =
     (case b64decode L (repad_b64 s) of
        Inl e \<Rightarrow> Inl e
      | Inr eb \<Rightarrow>
          (case aes_cbc_decrypt L (utf8_encode k) (utf8_encode iv) eb of
             Inl e \<Rightarrow> Inl e
           | Inr p \<Rightarrow>
               (case strip_padding p of
                  Inl e \<Rightarrow> Inl e
                | Inr pb \<Rightarrow>
                    (case inflate_raw L pb of
                       Inl e \<Rightarrow> Inl e
                     | Inr db \<Rightarrow>
                         (case utf8_decode L db of
                            Inl e \<Rightarrow> Inl e
                          | Inr t \<Rightarrow> json_loads L t)))))"
  by (simp add: decrypt_try_def Let_def split: sum.splits)

lemma decrypt_try_repad: "decrypt_try L (PStr s) k iv = decrypt_try L (PStr (repad_b64 s)) k iv"
  by (simp add: decrypt_try_PStr repad_b64_idem)

lemma round_trip_general:
  assumes "libs_invert L v k iv"
  shows "decrypt_and_decompress_payload L (PStr (encrypt_aes_payload L v k iv)) k iv = v"
proof -
  from assms obtain js cb eb where
    dumps: "json_dumps L v = Inr js" and
    deflate: "deflate_raw L (utf8_encode js) = Inr cb" and
    enc: "aes_cbc_encrypt L (utf8_encode k) (utf8_encode iv) (padded_bytes_of cb) = Inr eb" and
    b64: "b64decode L (b64encode eb) = Inr eb" and
    dec: "aes_cbc_decrypt L (utf8_encode k) (utf8_encode iv) eb = Inr (padded_bytes_of cb)" and
    inflate: "inflate_raw L cb = Inr (utf8_encode js)" and
    utf8: "utf8_decode L (utf8_encode js) = Inr js" and
    loads: "json_loads L js = Inr v"
    by (auto simp: libs_invert_def split: sum.splits)
  have "encrypt_aes_payload L v k iv = b64encode eb"
    by (simp add: encrypt_aes_payload_def encrypt_aes_try_def Let_def dumps deflate enc)
  moreover have "decrypt_try L (PStr (b64encode eb)) k iv = Inr v"
    by (simp add: decrypt_try_PStr repad_b64_b64encode b64 dec strip_padding_padded inflate utf8
        loads)
  ultimately show ?thesis
    by (simp add: decrypt_and_decompress_payload_def)
qed

section \<open>Reading the recorded results\<close>

lemma recorded_hit: "map_of table x = Some y \<Longrightarrow> recorded table x = Inr y"
  by (simp add: recorded_def)

lemma utf8_fixed_key: "utf8_encode fixed_key = fixed_key_bytes"
  by (simp add: utf8_encode_def utf8_char_def fixed_key_def fixed_key_bytes_def)

lemma utf8_fixed_iv: "utf8_encode fixed_iv = fixed_iv_bytes"
  by (simp add: utf8_encode_def utf8_char_def fixed_iv_def fixed_iv_bytes_def)

lemma example_record_eq: "str_record example_fields = plaintext_data ''a@b.com'' ''x''"
  by (simp add: str_record_def plaintext_data_def example_fields_def)

lemma rec_dumps_example: "json_dumps recorded_libs (plaintext_data ''a@b.com'' ''x'') = Inr example_json"
  by (simp add: recorded_libs_def recorded_def)

lemma rec_deflate_example: "deflate_raw recorded_libs (utf8_encode example_json) = Inr example_deflated"
  by (simp add: recorded_libs_def recorded_def)

lemma rec_encrypt_example:
  "aes_cbc_encrypt recorded_libs fixed_key_bytes fixed_iv_bytes (padded_bytes_of example_deflated)
     = Inr example_encrypted"
  by (simp add: recorded_libs_def recorded_def)

lemma rec_b64decode_example: "b64decode recorded_libs (b64encode example_encrypted) = Inr example_encrypted"
  by (simp add: recorded_libs_def recorded_def)

lemma rec_decrypt_example:
  "aes_cbc_decrypt recorded_libs fixed_key_bytes fixed_iv_bytes example_encrypted
     = Inr (padded_bytes_of example_deflated)"
  by (simp add: recorded_libs_def recorded_def)

lemma rec_inflate_example: "inflate_raw recorded_libs example_deflated = Inr (utf8_encode example_json)"
  by (simp add: recorded_libs_def recorded_def)

lemma rec_utf8_example: "utf8_decode recorded_libs (utf8_encode example_json) = Inr example_json"
  by (simp add: recorded_libs_def recorded_def)

lemma rec_loads_example: "json_loads recorded_libs example_json = Inr (plaintext_data ''a@b.com'' ''x'')"
  by (simp add: recorded_libs_def recorded_def)

lemma libs_invert_example:
  "libs_invert recorded_libs (plaintext_data ''a@b.com'' ''x'') fixed_key fixed_iv"
  by (simp add: libs_invert_def utf8_fixed_key utf8_fixed_iv rec_dumps_example rec_deflate_example
      rec_encrypt_example rec_b64decode_example rec_decrypt_example rec_inflate_example
      rec_utf8_example rec_loads_example)

lemma b64encode_zero_block: "b64encode zero_block = ''AAAAAAAAAAAAAAAAAAAAAA==''"
  by (simp add: zero_block_def b64_char_def b64_alphabet_def)

lemma rec_b64decode_zero: "b64decode recorded_libs ''AAAAAAAAAAAAAAAAAAAAAA=='' = Inr zero_block"
proof -
  have "b64encode example_encrypted \<noteq> ''AAAAAAAAAAAAAAAAAAAAAA==''"
    by (simp add: example_encrypted_def b64_char_def b64_alphabet_def)
  moreover have "b64encode token_encrypted \<noteq> ''AAAAAAAAAAAAAAAAAAAAAA==''"
    by (simp add: token_encrypted_def b64_char_def b64_alphabet_def)
  moreover have "b64encode sloppy_encrypted \<noteq> ''AAAAAAAAAAAAAAAAAAAAAA==''"
    by (simp add: sloppy_encrypted_def b64_char_def b64_alphabet_def)
  ultimately show ?thesis
    by (simp add: recorded_libs_def recorded_def)
qed

lemma rec_decrypt_zero:
  "aes_cbc_decrypt recorded_libs fixed_key_bytes fixed_iv_bytes zero_block = Inr zero_decrypted"
proof -
  have "example_encrypted \<noteq> zero_block" "token_encrypted \<noteq> zero_block"
    "sloppy_encrypted \<noteq> zero_block"
    by (simp_all add: example_encrypted_def token_encrypted_def sloppy_encrypted_def zero_block_def)
  then show ?thesis
    by (simp add: recorded_libs_def recorded_def)
qed

lemma zero_decrypted_last: "zero_decrypted \<noteq> [] \<and> unat (last zero_decrypted) = 128"
  by (simp add: zero_decrypted_def)

lemma rec_b64decode_sloppy: "b64decode recorded_libs (b64encode sloppy_encrypted) = Inr sloppy_encrypted"
proof -
  have "b64encode example_encrypted \<noteq> b64encode sloppy_encrypted"
    by (simp add: example_encrypted_def sloppy_encrypted_def b64_char_def b64_alphabet_def)
  moreover have "b64encode token_encrypted \<noteq> b64encode sloppy_encrypted"
    by (simp add: token_encrypted_def sloppy_encrypted_def b64_char_def b64_alphabet_def)
  ultimately show ?thesis
    by (simp add: recorded_libs_def recorded_def)
qed

lemma rec_decrypt_sloppy:
  "aes_cbc_decrypt recorded_libs fixed_key_bytes fixed_iv_bytes sloppy_encrypted = Inr sloppy_padded"
proof -
  have "example_encrypted \<noteq> sloppy_encrypted" "token_encrypted \<noteq> sloppy_encrypted"
    by (simp_all add: example_encrypted_def token_encrypted_def sloppy_encrypted_def)
  then show ?thesis
    by (simp add: recorded_libs_def recorded_def)
qed

lemma sloppy_padded_facts:
  "sloppy_padded \<noteq> [] \<and> length sloppy_padded = 32 \<and> unat (last sloppy_padded) = 15
   \<and> take 17 sloppy_padded = token_deflated"
  by (simp add: sloppy_padded_def token_deflated_def)

lemma sloppy_not_pkcs7: "\<not> pkcs7_valid sloppy_padded"
proof
  assume "pkcs7_valid sloppy_padded"
  then have "drop (length sloppy_padded - unat (last sloppy_padded)) sloppy_padded
      = replicate (unat (last sloppy_padded)) (last sloppy_padded)"
    by (simp add: pkcs7_valid_def)
  then have "hd (drop (length sloppy_padded - unat (last sloppy_padded)) sloppy_padded)
      = hd (replicate (unat (last sloppy_padded)) (last sloppy_padded))"
    by simp
  then show False
    by (simp add: sloppy_padded_def)
qed

lemma rec_b64decode_token: "b64decode recorded_libs (b64encode token_encrypted) = Inr token_encrypted"
proof -
  have "b64encode example_encrypted \<noteq> b64encode token_encrypted"
    by (simp add: example_encrypted_def token_encrypted_def b64_char_def b64_alphabet_def)
  then show ?thesis
    by (simp add: recorded_libs_def recorded_def)
qed

lemma rec_decrypt_token:
  "aes_cbc_decrypt recorded_libs fixed_key_bytes fixed_iv_bytes token_encrypted
     = Inr (padded_bytes_of token_deflated)"
proof -
  have "example_encrypted \<noteq> token_encrypted"
    by (simp add: example_encrypted_def token_encrypted_def)
  then show ?thesis
    by (simp add: recorded_libs_def recorded_def)
qed

lemma rec_inflate_token: "inflate_raw recorded_libs token_deflated = Inr (utf8_encode token_json)"
proof -
  have "example_deflated \<noteq> token_deflated"
    by (simp add: example_deflated_def token_deflated_def)
  then show ?thesis
    by (simp add: recorded_libs_def recorded_def)
qed

lemma rec_utf8_token: "utf8_decode recorded_libs (utf8_encode token_json) = Inr token_json"
proof -
  have "utf8_encode example_json \<noteq> utf8_encode token_json"
    by (simp add: example_json_def token_json_def utf8_encode_def utf8_char_def)
  then show ?thesis
    by (simp add: recorded_libs_def recorded_def)
qed

lemma rec_loads_token: "json_loads recorded_libs token_json = Inr token_record"
proof -
  have "example_json \<noteq> token_json"
    by (simp add: example_json_def token_json_def)
  then show ?thesis
    by (simp add: recorded_libs_def recorded_def)
qed

text \<open>The stub's envelope decodes to the token record.\<close>

lemma decrypt_token_envelope:
  "decrypt_and_decompress_payload recorded_libs (PStr (b64encode token_encrypted)) fixed_key fixed_iv
     = token_record"
  by (simp add: decrypt_and_decompress_payload_def decrypt_try_PStr repad_b64_b64encode
      utf8_fixed_key utf8_fixed_iv rec_b64decode_token rec_decrypt_token strip_padding_padded
      rec_inflate_token rec_utf8_token rec_loads_token)

lemma b64_token: "b64encode token_encrypted = ''HFO538p2//HPXsuYqEqmShAbAKzAM3qUdlymSJFNhvE=''"
  by (simp add: token_encrypted_def b64_char_def b64_alphabet_def)

section \<open>The encoder and the decoder\<close>

text \<open>
  Claim C1. For every record \<open>R\<close> of string fields and every key and IV string, decoding the
  encoder's output under the same key and IV gives \<open>R\<close> back, when the libraries succeed on
  this run and invert one another there (the cipher succeeds only on a key and an IV of its
  fixed lengths).
\<close>

theorem encode_decode_round_trip:
  assumes "libs_invert L (str_record R) key_string iv_string"
  shows "decrypt_and_decompress_payload L
           (PStr (encrypt_aes_payload L (str_record R) key_string iv_string))
           key_string iv_string
         = str_record R"
  using assms by (rule round_trip_general)

theorem encode_decode_round_trip_witness:
  "libs_invert recorded_libs (str_record example_fields) fixed_key fixed_iv
   \<and> decrypt_and_decompress_payload recorded_libs
        (PStr (encrypt_aes_payload recorded_libs (str_record example_fields) fixed_key fixed_iv))
        fixed_key fixed_iv
      = str_record example_fields"
proof -
  have h: "libs_invert recorded_libs (str_record example_fields) fixed_key fixed_iv"
    by (simp only: example_record_eq libs_invert_example)
  show ?thesis
    using h encode_decode_round_trip [OF h] by simp
qed

text \<open>
  Claim C3. Whatever the record compresses to, the encoder hands the cipher the compressed
  bytes followed by \<open>n\<close> bytes of value \<open>n\<close>, where \<open>n\<close> is 16 minus the compressed length
  modulo 16: from 1 to 16 bytes, a whole block of 16 when the length is already a multiple of
  16, and the padded length is a multiple of 16.
\<close>

theorem encoder_pads_pkcs7:
  assumes "json_dumps L data_dict = Inr json_string"
    and "deflate_raw L (utf8_encode json_string) = Inr compressed_bytes"
  shows "\<exists>n. n = 16 - length compressed_bytes mod 16 \<and> 1 \<le> n \<and> n \<le> 16
           \<and> (length compressed_bytes mod 16 = 0 \<longrightarrow> n = 16)
           \<and> (\<forall>b \<in> set (replicate n (of_nat n :: byte)). unat b = n)
           \<and> length (compressed_bytes @ replicate n (of_nat n :: byte)) mod 16 = 0
           \<and> encrypt_aes_try L data_dict key_string iv_string =
               (case aes_cbc_encrypt L (utf8_encode key_string) (utf8_encode iv_string)
                       (compressed_bytes @ replicate n (of_nat n)) of
                  Inl e \<Rightarrow> Inl e
                | Inr encrypted_bytes \<Rightarrow> Inr (b64encode encrypted_bytes))"
proof -
  let ?n = "pad_len_of compressed_bytes"
  have f1: "?n = 16 - length compressed_bytes mod 16"
    by (rule pad_len_eq)
  have f2: "1 \<le> ?n" and f3: "?n \<le> 16"
    using pad_len_range [of compressed_bytes] by simp_all
  have f4: "length compressed_bytes mod 16 = 0 \<longrightarrow> ?n = 16"
    by (simp add: pad_len_eq)
  have f5: "\<forall>b \<in> set (replicate ?n (of_nat ?n :: byte)). unat b = ?n"
    by (simp add: unat_pad_byte)
  have f6: "length (compressed_bytes @ replicate ?n (of_nat ?n :: byte)) mod 16 = 0"
    using length_padded [of compressed_bytes] unfolding padded_bytes_of_def .
  have f7: "encrypt_aes_try L data_dict key_string iv_string =
      (case aes_cbc_encrypt L (utf8_encode key_string) (utf8_encode iv_string)
              (compressed_bytes @ replicate ?n (of_nat ?n)) of
         Inl e \<Rightarrow> Inl e
       | Inr encrypted_bytes \<Rightarrow> Inr (b64encode encrypted_bytes))"
    unfolding encrypt_aes_try_def Let_def padded_bytes_of_def
    by (simp only: assms sum.case)
  show ?thesis
    by (rule exI [of _ ?n]) (intro conjI f1 f2 f3 f4 f5 f6 f7)
qed

theorem encoder_pads_pkcs7_witness:
  "json_dumps recorded_libs (plaintext_data ''a@b.com'' ''x'') = Inr example_json
   \<and> deflate_raw recorded_libs (utf8_encode example_json) = Inr example_deflated
   \<and> length example_deflated = 151
   \<and> encrypt_aes_try recorded_libs (plaintext_data ''a@b.com'' ''x'') fixed_key fixed_iv =
       (case aes_cbc_encrypt recorded_libs (utf8_encode fixed_key) (utf8_encode fixed_iv)
               (example_deflated @ replicate 9 9) of
          Inl e \<Rightarrow> Inl e
        | Inr encrypted_bytes \<Rightarrow> Inr (b64encode encrypted_bytes))"
proof -
  have len: "length example_deflated = 151"
    by (simp add: example_deflated_def)
  from encoder_pads_pkcs7 [OF rec_dumps_example rec_deflate_example, of fixed_key fixed_iv]
  obtain n where n: "n = 16 - length example_deflated mod 16"
    and enc: "encrypt_aes_try recorded_libs (plaintext_data ''a@b.com'' ''x'') fixed_key fixed_iv =
         (case aes_cbc_encrypt recorded_libs (utf8_encode fixed_key) (utf8_encode fixed_iv)
                 (example_deflated @ replicate n (of_nat n)) of
            Inl e \<Rightarrow> Inl e
          | Inr encrypted_bytes \<Rightarrow> Inr (b64encode encrypted_bytes))"
    by (elim exE conjE)
  from n len have n9: "n = 9" by simp
  have "(of_nat n :: byte) = 9" unfolding n9 by simp
  with enc n9 have "encrypt_aes_try recorded_libs (plaintext_data ''a@b.com'' ''x'') fixed_key fixed_iv =
         (case aes_cbc_encrypt recorded_libs (utf8_encode fixed_key) (utf8_encode fixed_iv)
                 (example_deflated @ replicate 9 9) of
            Inl e \<Rightarrow> Inl e
          | Inr encrypted_bytes \<Rightarrow> Inr (b64encode encrypted_bytes))"
    by (simp only:)
  with len show ?thesis
    by (intro conjI rec_dumps_example rec_deflate_example)
qed

text \<open>
  Claim C2. Whenever the decrypted data ends in a byte that is 0 or above 16, the decoder
  raises its invalid-padding error and returns the error record for it, not a decoded record.
\<close>

theorem invalid_padding_fails:
  assumes "b64decode L (repad_b64 s) = Inr encrypted_bytes"
    and "aes_cbc_decrypt L (utf8_encode key_string) (utf8_encode iv_string) encrypted_bytes
           = Inr padded_plaintext"
    and "padded_plaintext \<noteq> []"
    and "unat (last padded_plaintext) = 0 \<or> unat (last padded_plaintext) > 16"
  shows "decrypt_try L (PStr s) key_string iv_string = Inl (Exn ''Invalid padding value.'')
         \<and> decrypt_and_decompress_payload L (PStr s) key_string iv_string
             = PDict [(''error'', PStr ''Decryption Failed: Invalid padding value.'')]"
proof -
  have "strip_padding padded_plaintext = Inl (Exn ''Invalid padding value.'')"
    using assms(3,4) by (rule strip_padding_invalid)
  then have "decrypt_try L (PStr s) key_string iv_string = Inl (Exn ''Invalid padding value.'')"
    by (simp add: decrypt_try_PStr assms(1,2))
  then show ?thesis
    by (simp add: decrypt_and_decompress_payload_def error_record_def)
qed

theorem invalid_padding_fails_witness:
  "b64decode recorded_libs (repad_b64 ''AAAAAAAAAAAAAAAAAAAAAA=='') = Inr zero_block
   \<and> aes_cbc_decrypt recorded_libs (utf8_encode fixed_key) (utf8_encode fixed_iv) zero_block
       = Inr zero_decrypted
   \<and> zero_decrypted \<noteq> [] \<and> unat (last zero_decrypted) = 128
   \<and> decrypt_and_decompress_payload recorded_libs (PStr ''AAAAAAAAAAAAAAAAAAAAAA=='')
         fixed_key fixed_iv
       = PDict [(''error'', PStr ''Decryption Failed: Invalid padding value.'')]"
proof -
  have h1: "b64decode recorded_libs (repad_b64 ''AAAAAAAAAAAAAAAAAAAAAA=='') = Inr zero_block"
    by (simp add: repad_b64_def rec_b64decode_zero)
  have h2: "aes_cbc_decrypt recorded_libs (utf8_encode fixed_key) (utf8_encode fixed_iv) zero_block
      = Inr zero_decrypted"
    by (simp only: utf8_fixed_key utf8_fixed_iv rec_decrypt_zero)
  have h3: "zero_decrypted \<noteq> []" and h4: "unat (last zero_decrypted) = 128"
    using zero_decrypted_last by simp_all
  have h5: "unat (last zero_decrypted) = 0 \<or> unat (last zero_decrypted) > 16"
    using h4 by simp
  from invalid_padding_fails [OF h1 h2 h3 h5] h1 h2 h3 h4 show ?thesis
    by (intro conjI) simp_all
qed

text \<open>
  Claim C9. The decoder looks at the last decrypted byte only. For decrypted blocks whose last
  byte \<open>n\<close> is from 1 to 16 it drops exactly the last \<open>n\<close> bytes and goes on to inflate the
  rest, whatever the other dropped bytes are; nothing requires them to equal \<open>n\<close>.
\<close>

theorem padding_strip_reads_last_byte_only:
  assumes "b64decode L (repad_b64 s) = Inr encrypted_bytes"
    and "aes_cbc_decrypt L (utf8_encode key_string) (utf8_encode iv_string) encrypted_bytes
           = Inr padded_plaintext"
    and "padded_plaintext \<noteq> []"
    and "length padded_plaintext mod 16 = 0"
    and "1 \<le> unat (last padded_plaintext)"
    and "unat (last padded_plaintext) \<le> 16"
  shows "\<exists>kept dropped.
           padded_plaintext = kept @ dropped
           \<and> length dropped = unat (last padded_plaintext)
           \<and> strip_padding padded_plaintext = Inr kept
           \<and> decrypt_try L (PStr s) key_string iv_string =
               (case inflate_raw L kept of
                  Inl e \<Rightarrow> Inl e
                | Inr decompressed_bytes \<Rightarrow>
                    (case utf8_decode L decompressed_bytes of
                       Inl e \<Rightarrow> Inl e
                     | Inr text \<Rightarrow> json_loads L text))"
proof -
  let ?n = "unat (last padded_plaintext)"
  let ?kept = "take (length padded_plaintext - ?n) padded_plaintext"
  let ?dropped = "drop (length padded_plaintext - ?n) padded_plaintext"
  have "16 \<le> length padded_plaintext"
  proof (rule ccontr)
    assume "\<not> 16 \<le> length padded_plaintext"
    then have "length padded_plaintext mod 16 = length padded_plaintext"
      by simp
    with assms(3,4) show False
      by simp
  qed
  with assms(6) have le: "?n \<le> length padded_plaintext"
    by simp
  have f1: "padded_plaintext = ?kept @ ?dropped"
    by simp
  have f2: "length ?dropped = ?n"
    using le by simp
  have f3: "strip_padding padded_plaintext = Inr ?kept"
    using assms(3,5,6) by (rule strip_padding_last_byte)
  have f4: "decrypt_try L (PStr s) key_string iv_string =
      (case inflate_raw L ?kept of
         Inl e \<Rightarrow> Inl e
       | Inr decompressed_bytes \<Rightarrow>
           (case utf8_decode L decompressed_bytes of
              Inl e \<Rightarrow> Inl e
            | Inr text \<Rightarrow> json_loads L text))"
    by (simp add: decrypt_try_PStr assms(1,2) f3)
  show ?thesis
    by (rule exI [of _ ?kept], rule exI [of _ ?dropped]) (intro conjI f1 f2 f3 f4)
qed

theorem padding_strip_reads_last_byte_only_witness:
  "b64decode recorded_libs (repad_b64 (b64encode sloppy_encrypted)) = Inr sloppy_encrypted
   \<and> aes_cbc_decrypt recorded_libs (utf8_encode fixed_key) (utf8_encode fixed_iv) sloppy_encrypted
       = Inr sloppy_padded
   \<and> sloppy_padded \<noteq> [] \<and> length sloppy_padded mod 16 = 0
   \<and> 1 \<le> unat (last sloppy_padded) \<and> unat (last sloppy_padded) \<le> 16
   \<and> \<not> pkcs7_valid sloppy_padded
   \<and> strip_padding sloppy_padded = Inr token_deflated
   \<and> decrypt_try recorded_libs (PStr (b64encode sloppy_encrypted)) fixed_key fixed_iv
       = Inr token_record"
proof -
  have h1: "b64decode recorded_libs (repad_b64 (b64encode sloppy_encrypted)) = Inr sloppy_encrypted"
    by (simp only: repad_b64_b64encode rec_b64decode_sloppy)
  have h2: "aes_cbc_decrypt recorded_libs (utf8_encode fixed_key) (utf8_encode fixed_iv)
      sloppy_encrypted = Inr sloppy_padded"
    by (simp only: utf8_fixed_key utf8_fixed_iv rec_decrypt_sloppy)
  have h3: "sloppy_padded \<noteq> []" and h4: "length sloppy_padded mod 16 = 0"
    and h5: "1 \<le> unat (last sloppy_padded)" and h6: "unat (last sloppy_padded) \<le> 16"
    using sloppy_padded_facts by simp_all
  from padding_strip_reads_last_byte_only [OF h1 h2 h3 h4 h5 h6]
  obtain kept dropped where k: "sloppy_padded = kept @ dropped"
      "length dropped = unat (last sloppy_padded)"
      "strip_padding sloppy_padded = Inr kept"
      "decrypt_try recorded_libs (PStr (b64encode sloppy_encrypted)) fixed_key fixed_iv =
         (case inflate_raw recorded_libs kept of
            Inl e \<Rightarrow> Inl e
          | Inr decompressed_bytes \<Rightarrow>
              (case utf8_decode recorded_libs decompressed_bytes of
                 Inl e \<Rightarrow> Inl e
               | Inr text \<Rightarrow> json_loads recorded_libs text))"
    by (elim exE conjE)
  have "strip_padding sloppy_padded = Inr (take 17 sloppy_padded)"
    using strip_padding_last_byte [OF h3 h5 h6] sloppy_padded_facts by simp
  with k(3) have kept: "kept = token_deflated"
    using sloppy_padded_facts by simp
  have f8: "strip_padding sloppy_padded = Inr token_deflated"
    using k(3) kept by simp
  have f9: "decrypt_try recorded_libs (PStr (b64encode sloppy_encrypted)) fixed_key fixed_iv
      = Inr token_record"
    using k(4) unfolding kept by (simp add: rec_inflate_token rec_utf8_token rec_loads_token)
  show ?thesis
    by (intro conjI h1 h2 h3 h4 h5 h6 sloppy_not_pkcs7 f8 f9)
qed

text \<open>
  Claim C4. The decoder base64-decodes its input string with one to three \<^verbatim>\<open>=\<close> characters
  appended when the length is not a multiple of 4 (which makes it one), and the string itself
  otherwise; the decoded bytes then go through decryption, the padding check, inflating and
  parsing. So an envelope without its trailing \<^verbatim>\<open>=\<close> characters decodes to what the whole
  envelope decodes to.
\<close>

theorem base64_repadding:
  "(length s mod 4 \<noteq> 0 \<longrightarrow>
      (\<exists>n. 1 \<le> n \<and> n \<le> 3 \<and> length (s @ replicate n CHR ''='') mod 4 = 0
           \<and> decrypt_try L (PStr s) key_string iv_string =
               (case b64decode L (s @ replicate n CHR ''='') of
                  Inl e \<Rightarrow> Inl e
                | Inr encrypted_bytes \<Rightarrow>
                    (case aes_cbc_decrypt L (utf8_encode key_string) (utf8_encode iv_string)
                            encrypted_bytes of
                       Inl e \<Rightarrow> Inl e
                     | Inr padded_plaintext \<Rightarrow>
                         (case strip_padding padded_plaintext of
                            Inl e \<Rightarrow> Inl e
                          | Inr plaintext_bytes \<Rightarrow>
                              (case inflate_raw L plaintext_bytes of
                                 Inl e \<Rightarrow> Inl e
                               | Inr decompressed_bytes \<Rightarrow>
                                   (case utf8_decode L decompressed_bytes of
                                      Inl e \<Rightarrow> Inl e
                                    | Inr text \<Rightarrow> json_loads L text)))))))
   \<and> (length s mod 4 = 0 \<longrightarrow>
        decrypt_try L (PStr s) key_string iv_string =
          (case b64decode L s of
             Inl e \<Rightarrow> Inl e
           | Inr encrypted_bytes \<Rightarrow>
               (case aes_cbc_decrypt L (utf8_encode key_string) (utf8_encode iv_string)
                       encrypted_bytes of
                  Inl e \<Rightarrow> Inl e
                | Inr padded_plaintext \<Rightarrow>
                    (case strip_padding padded_plaintext of
                       Inl e \<Rightarrow> Inl e
                     | Inr plaintext_bytes \<Rightarrow>
                         (case inflate_raw L plaintext_bytes of
                            Inl e \<Rightarrow> Inl e
                          | Inr decompressed_bytes \<Rightarrow>
                              (case utf8_decode L decompressed_bytes of
                                 Inl e \<Rightarrow> Inl e
                               | Inr text \<Rightarrow> json_loads L text))))))
   \<and> repad_b64 (strip_eq (b64encode bs)) = b64encode bs
   \<and> decrypt_and_decompress_payload L (PStr (strip_eq (b64encode bs))) key_string iv_string
       = decrypt_and_decompress_payload L (PStr (b64encode bs)) key_string iv_string"
proof (intro conjI impI)
  assume "length s mod 4 \<noteq> 0"
  then obtain n where n: "1 \<le> n" "n \<le> 3" "repad_b64 s = s @ replicate n CHR ''=''"
      "length (repad_b64 s) mod 4 = 0"
    using repad_b64_appends [of s] by auto
  from n(3,4) have len: "length (s @ replicate n CHR ''='') mod 4 = 0"
    by simp
  have dec: "decrypt_try L (PStr s) key_string iv_string =
      (case b64decode L (s @ replicate n CHR ''='') of
         Inl e \<Rightarrow> Inl e
       | Inr encrypted_bytes \<Rightarrow>
           (case aes_cbc_decrypt L (utf8_encode key_string) (utf8_encode iv_string)
                   encrypted_bytes of
              Inl e \<Rightarrow> Inl e
            | Inr padded_plaintext \<Rightarrow>
                (case strip_padding padded_plaintext of
                   Inl e \<Rightarrow> Inl e
                 | Inr plaintext_bytes \<Rightarrow>
                     (case inflate_raw L plaintext_bytes of
                        Inl e \<Rightarrow> Inl e
                      | Inr decompressed_bytes \<Rightarrow>
                          (case utf8_decode L decompressed_bytes of
                             Inl e \<Rightarrow> Inl e
                           | Inr text \<Rightarrow> json_loads L text)))))"
    unfolding decrypt_try_PStr n(3) by (rule refl)
  show "\<exists>n. 1 \<le> n \<and> n \<le> 3 \<and> length (s @ replicate n CHR ''='') mod 4 = 0
           \<and> decrypt_try L (PStr s) key_string iv_string =
               (case b64decode L (s @ replicate n CHR ''='') of
                  Inl e \<Rightarrow> Inl e
                | Inr encrypted_bytes \<Rightarrow>
                    (case aes_cbc_decrypt L (utf8_encode key_string) (utf8_encode iv_string)
                            encrypted_bytes of
                       Inl e \<Rightarrow> Inl e
                     | Inr padded_plaintext \<Rightarrow>
                         (case strip_padding padded_plaintext of
                            Inl e \<Rightarrow> Inl e
                          | Inr plaintext_bytes \<Rightarrow>
                              (case inflate_raw L plaintext_bytes of
                                 Inl e \<Rightarrow> Inl e
                               | Inr decompressed_bytes \<Rightarrow>
                                   (case utf8_decode L decompressed_bytes of
                                      Inl e \<Rightarrow> Inl e
                                    | Inr text \<Rightarrow> json_loads L text)))))"
    by (rule exI [of _ n]) (intro conjI n(1) n(2) len dec)
next
  assume "length s mod 4 = 0"
  then have "repad_b64 s = s"
    by (rule repad_b64_aligned)
  then show "decrypt_try L (PStr s) key_string iv_string =
          (case b64decode L s of
             Inl e \<Rightarrow> Inl e
           | Inr encrypted_bytes \<Rightarrow>
               (case aes_cbc_decrypt L (utf8_encode key_string) (utf8_encode iv_string)
                       encrypted_bytes of
                  Inl e \<Rightarrow> Inl e
                | Inr padded_plaintext \<Rightarrow>
                    (case strip_padding padded_plaintext of
                       Inl e \<Rightarrow> Inl e
                     | Inr plaintext_bytes \<Rightarrow>
                         (case inflate_raw L plaintext_bytes of
                            Inl e \<Rightarrow> Inl e
                          | Inr decompressed_bytes \<Rightarrow>
                              (case utf8_decode L decompressed_bytes of
                                 Inl e \<Rightarrow> Inl e
                               | Inr text \<Rightarrow> json_loads L text)))))"
    by (simp only: decrypt_try_PStr)
next
  show "repad_b64 (strip_eq (b64encode bs)) = b64encode bs"
    by (rule repad_strip_b64encode)
next
  have "decrypt_try L (PStr (strip_eq (b64encode bs))) key_string iv_string
      = decrypt_try L (PStr (b64encode bs)) key_string iv_string"
    by (simp add: decrypt_try_PStr repad_strip_b64encode repad_b64_b64encode)
  then show "decrypt_and_decompress_payload L (PStr (strip_eq (b64encode bs))) key_string iv_string
       = decrypt_and_decompress_payload L (PStr (b64encode bs)) key_string iv_string"
    by (simp add: decrypt_and_decompress_payload_def)
qed

theorem base64_repadding_witness:
  "length ''HFO538p2//HPXsuYqEqmShAbAKzAM3qUdlymSJFNhvE'' mod 4 \<noteq> 0
   \<and> strip_eq (b64encode token_encrypted) = ''HFO538p2//HPXsuYqEqmShAbAKzAM3qUdlymSJFNhvE''
   \<and> decrypt_try recorded_libs (PStr ''HFO538p2//HPXsuYqEqmShAbAKzAM3qUdlymSJFNhvE'')
        fixed_key fixed_iv = Inr (PDict [(''token'', PStr ''abc'')])
   \<and> decrypt_and_decompress_payload recorded_libs
        (PStr ''HFO538p2//HPXsuYqEqmShAbAKzAM3qUdlymSJFNhvE'') fixed_key fixed_iv
      = PDict [(''token'', PStr ''abc'')]
   \<and> decrypt_and_decompress_payload recorded_libs
        (PStr ''HFO538p2//HPXsuYqEqmShAbAKzAM3qUdlymSJFNhvE='') fixed_key fixed_iv
      = PDict [(''token'', PStr ''abc'')]"
proof -
  let ?short = "''HFO538p2//HPXsuYqEqmShAbAKzAM3qUdlymSJFNhvE''"
  note inst = base64_repadding [of ?short recorded_libs fixed_key fixed_iv token_encrypted]
  have h: "length ?short mod 4 \<noteq> 0"
    by simp
  have st: "strip_eq (b64encode token_encrypted) = ?short"
    by (simp add: b64_token strip_eq_def)
  from inst [THEN conjunct1, THEN mp, OF h] obtain n where n: "1 \<le> n" "n \<le> 3" "length (?short @ replicate n CHR ''='') mod 4 = 0"
    and dec: "decrypt_try recorded_libs (PStr ?short) fixed_key fixed_iv =
               (case b64decode recorded_libs (?short @ replicate n CHR ''='') of
                  Inl e \<Rightarrow> Inl e
                | Inr encrypted_bytes \<Rightarrow>
                    (case aes_cbc_decrypt recorded_libs (utf8_encode fixed_key) (utf8_encode fixed_iv)
                            encrypted_bytes of
                       Inl e \<Rightarrow> Inl e
                     | Inr padded_plaintext \<Rightarrow>
                         (case strip_padding padded_plaintext of
                            Inl e \<Rightarrow> Inl e
                          | Inr plaintext_bytes \<Rightarrow>
                              (case inflate_raw recorded_libs plaintext_bytes of
                                 Inl e \<Rightarrow> Inl e
                               | Inr decompressed_bytes \<Rightarrow>
                                   (case utf8_decode recorded_libs decompressed_bytes of
                                      Inl e \<Rightarrow> Inl e
                                    | Inr text \<Rightarrow> json_loads recorded_libs text)))))"
    by (elim exE conjE)
  from n have "n = 1"
    by (cases "n = 1"; cases "n = 2"; cases "n = 3") simp_all
  then have "?short @ replicate n CHR ''='' = b64encode token_encrypted"
    by (simp add: b64_token)
  with dec have t: "decrypt_try recorded_libs (PStr ?short) fixed_key fixed_iv
      = Inr (PDict [(''token'', PStr ''abc'')])"
    by (simp add: rec_b64decode_token utf8_fixed_key utf8_fixed_iv rec_decrypt_token
        strip_padding_padded rec_inflate_token rec_utf8_token rec_loads_token token_record_def)
  then have r1: "decrypt_and_decompress_payload recorded_libs (PStr ?short) fixed_key fixed_iv
      = PDict [(''token'', PStr ''abc'')]"
    by (simp add: decrypt_and_decompress_payload_def)
  have r2: "decrypt_and_decompress_payload recorded_libs
      (PStr ''HFO538p2//HPXsuYqEqmShAbAKzAM3qUdlymSJFNhvE='') fixed_key fixed_iv
      = PDict [(''token'', PStr ''abc'')]"
    using decrypt_token_envelope by (simp add: b64_token token_record_def)
  show ?thesis
    by (intro conjI h st t r1 r2)
qed

text \<open>
  Claim C5. A stage of the decode path (base64 decoding, decryption, the padding check,
  inflating, UTF-8 decoding, JSON parsing) that raises makes the body of the decoder raise the
  same exception, and the decoder then returns the record with the one field \<^verbatim>\<open>error\<close>
  describing it. On every input the decoder returns a value: the parsed one, or that record.
\<close>

theorem decode_soft_fails:
  "(decode_stage_fails L s key_string iv_string e
      \<longleftrightarrow> decrypt_try L (PStr s) key_string iv_string = Inl e)
   \<and> (decrypt_try L v key_string iv_string = Inl e \<longrightarrow>
        decrypt_and_decompress_payload L v key_string iv_string
          = PDict [(''error'', PStr (''Decryption Failed: '' @ exn_text e))])
   \<and> (case decrypt_try L v key_string iv_string of
         Inr x \<Rightarrow> decrypt_and_decompress_payload L v key_string iv_string = x
       | Inl e' \<Rightarrow> decrypt_and_decompress_payload L v key_string iv_string
           = PDict [(''error'', PStr (''Decryption Failed: '' @ exn_text e'))])"
proof (intro conjI impI)
  show "decode_stage_fails L s key_string iv_string e
      \<longleftrightarrow> decrypt_try L (PStr s) key_string iv_string = Inl e"
    unfolding decode_stage_fails_def decrypt_try_PStr
    by (auto split: sum.splits)
next
  assume "decrypt_try L v key_string iv_string = Inl e"
  then show "decrypt_and_decompress_payload L v key_string iv_string
          = PDict [(''error'', PStr (''Decryption Failed: '' @ exn_text e))]"
    by (simp add: decrypt_and_decompress_payload_def error_record_def)
next
  show "case decrypt_try L v key_string iv_string of
         Inr x \<Rightarrow> decrypt_and_decompress_payload L v key_string iv_string = x
       | Inl e' \<Rightarrow> decrypt_and_decompress_payload L v key_string iv_string
           = PDict [(''error'', PStr (''Decryption Failed: '' @ exn_text e'))]"
    by (simp add: decrypt_and_decompress_payload_def error_record_def split: sum.splits)
qed

theorem decode_soft_fails_witness:
  "decode_stage_fails recorded_libs ''AAAAAAAAAAAAAAAAAAAAAA=='' fixed_key fixed_iv
     (Exn ''Invalid padding value.'')
   \<and> decrypt_try recorded_libs (PStr ''AAAAAAAAAAAAAAAAAAAAAA=='') fixed_key fixed_iv
       = Inl (Exn ''Invalid padding value.'')
   \<and> decrypt_and_decompress_payload recorded_libs (PStr ''AAAAAAAAAAAAAAAAAAAAAA=='')
        fixed_key fixed_iv
       = PDict [(''error'', PStr ''Decryption Failed: Invalid padding value.'')]"
proof -
  let ?s = "''AAAAAAAAAAAAAAAAAAAAAA==''"
  let ?e = "Exn ''Invalid padding value.''"
  have pad: "strip_padding zero_decrypted = Inl ?e"
    using zero_decrypted_last by (intro strip_padding_invalid) simp_all
  have rp: "repad_b64 ?s = ?s"
    by (simp add: repad_b64_def)
  have h: "decode_stage_fails recorded_libs ?s fixed_key fixed_iv ?e"
    unfolding decode_stage_fails_def
    by (simp add: rp rec_b64decode_zero utf8_fixed_key utf8_fixed_iv rec_decrypt_zero pad)
  note inst = decode_soft_fails [of recorded_libs ?s fixed_key fixed_iv ?e "PStr ?s"]
  from inst h have t: "decrypt_try recorded_libs (PStr ?s) fixed_key fixed_iv = Inl ?e"
    by (elim conjE) (simp only:)
  from inst t have "decrypt_and_decompress_payload recorded_libs (PStr ?s) fixed_key fixed_iv
      = PDict [(''error'', PStr (''Decryption Failed: '' @ exn_text ?e))]"
    by (elim conjE) (simp only:)
  then have r: "decrypt_and_decompress_payload recorded_libs (PStr ?s) fixed_key fixed_iv
      = PDict [(''error'', PStr ''Decryption Failed: Invalid padding value.'')]"
    by simp
  from h t r show ?thesis
    by (intro conjI)
qed

section \<open>The recorded envelopes as text\<close>

lemma b64_example: "b64encode example_encrypted =
     ''u2u7et4tzk7esjYX303HDVljyz6MbZyGTRKaMnaj5Execo/BdT68YakHKV6ity2VMmW3a3'' @
     ''ntThCeX71a5rXyLc+lPwY/Yw2dqXn0j1NE+dPgHBOOf5G23QnoaNEZ9KxNsmPR8/PI29ZA'' @
     ''lCR7JvNHOM7p5sYM1JCr9qgikMx92BsrpC0SdLx1SOLnXtW6ocPruGbd58WwxU/uKfkJVU'' @
     ''WwiA==''"
  by (simp add: example_encrypted_def b64_char_def b64_alphabet_def)

lemma b64_example_aes128: "b64encode example_encrypted_aes128 =
     ''gmE2YyP3ilss3WA3yZkpPsNO1OPgOTNkFoegXr/EkGqcblyXO7yQftgiXdsX31Yp0gQufy'' @
     ''BWvtcyyv6ChSUyzGK6sORt8Qmsd64SK0Ge42fw7ns3YzKladB2VBxnSl3LAxqa/Tn7IvBF'' @
     ''XmfzGaQDtW2V4MVj9exQGtG7LjQtiA4genxST2NHoDIMC1xgqUacHX00AGbCUTj6LXz5Wd'' @
     ''mVtQ==''"
  by (simp add: example_encrypted_aes128_def b64_char_def b64_alphabet_def)

lemma b64_flagged: "b64encode flagged_encrypted =
     ''hC9+Tp+tktQvrpdija60FsmO3obRYUdtDVLXswmswShfXt9HBE0XMQsP9OWcwhKkit38LS'' @
     ''ftnjI5NlfZmGvKUZhSg7C6nHNpt1p2zRLOFx6l10ZcQO02mU1ZUa3cUQlpSUdkv7Hle0rt'' @
     ''ybPHDzaMRI+od+AlZaJ1M75dbLxO/rDOBMfhGl/g6gr2H3UeGzVqy9DIs1QiiDError1po'' @
     ''R+Cw==''"
  by (simp add: flagged_encrypted_def b64_char_def b64_alphabet_def)

lemma b64_rsa_key: "b64encode rsa_key_ciphertext =
     ''o4pFVHui9J2xUKuiOvtT7ydSqsC3LUSD5khMtM6s7VxOdcVkUQhv3vVtX/Fum/vedZJ5kU'' @
     ''pSfGg0fYPwbVxI1Zl4th5z0+O/Py0YLJ4bSj/OtBzvO7HMIbzpJbofpORHQ+DHxhYxpWyu'' @
     ''dyDOXh8Jqt903cyDY6xg36kMoqPYSjE=''"
  by (simp add: rsa_key_ciphertext_def b64_char_def b64_alphabet_def)

lemma b64_rsa_iv: "b64encode rsa_iv_ciphertext =
     ''d/CLMtLgPXXJygMLOxKqzt+yOHAYfozyZhEbiQBlSPs2K0QRvyOJrAzY416MfueJJWGUzC'' @
     ''iVvHcKAD3benKpRPZwPTtfIbp+udcKTPpjUymQZcwLPeWMQ2ogaLvWYrv5gq01qkkPsJak'' @
     ''gW008dMzLIfIb7M0boCUJbUi9J123NE=''"
  by (simp add: rsa_iv_ciphertext_def b64_char_def b64_alphabet_def)

lemma example_not_flagged: "\<not> sublist ''Error'' (b64encode example_encrypted)"
  unfolding b64_example by (simp add: sublist_Cons_right)

lemma rsa_key_not_flagged: "\<not> sublist ''Error'' (b64encode rsa_key_ciphertext)"
  unfolding b64_rsa_key by (simp add: sublist_Cons_right)

lemma rsa_iv_not_flagged: "\<not> sublist ''Error'' (b64encode rsa_iv_ciphertext)"
  unfolding b64_rsa_iv by (simp add: sublist_Cons_right)

lemma flagged_has_Error: "sublist ''Error'' (b64encode flagged_encrypted)"
proof -
  have "b64encode flagged_encrypted =
     (''hC9+Tp+tktQvrpdija60FsmO3obRYUdtDVLXswmswShfXt9HBE0XMQsP9OWcwhKkit38LS'' @
      ''ftnjI5NlfZmGvKUZhSg7C6nHNpt1p2zRLOFx6l10ZcQO02mU1ZUa3cUQlpSUdkv7Hle0rt'' @
      ''ybPHDzaMRI+od+AlZaJ1M75dbLxO/rDOBMfhGl/g6gr2H3UeGzVqy9DIs1QiiD'') @ ''Error'' @ ''1poR+Cw==''"
    unfolding b64_flagged by simp
  then show ?thesis
    by (simp only: sublist_appendI)
qed

section \<open>The driver on the recorded results\<close>

lemma key_iv_bytes_differ:
  "fixed_key_bytes \<noteq> fixed_iv_bytes" "take 16 fixed_key_bytes \<noteq> fixed_key_bytes"
  "length fixed_key_bytes = 32" "length fixed_iv_bytes = 16"
  by (simp_all add: fixed_key_bytes_def fixed_iv_bytes_def)

lemma rec_rsa_key:
  "rsa_pkcs1_encrypt recorded_libs RSA_PUBLIC_KEY_PEM fixed_key_bytes = Inr rsa_key_ciphertext"
  by (simp add: recorded_libs_def recorded_def)

lemma rec_rsa_iv:
  "rsa_pkcs1_encrypt recorded_libs RSA_PUBLIC_KEY_PEM fixed_iv_bytes = Inr rsa_iv_ciphertext"
  using key_iv_bytes_differ(1) by (simp add: recorded_libs_def recorded_def)

lemma encrypt_rsa_recorded:
  "encrypt_rsa recorded_libs fixed_key = b64encode rsa_key_ciphertext"
  "encrypt_rsa recorded_libs fixed_iv = b64encode rsa_iv_ciphertext"
  by (simp_all add: encrypt_rsa_def utf8_fixed_key utf8_fixed_iv rec_rsa_key rec_rsa_iv)

lemma plaintext_data_differ:
  "plaintext_data ''a@b.com'' ''x'' \<noteq> plaintext_data ''a@b.com'' ''pw37642009''"
  by (simp add: plaintext_data_def)

lemma rec_dumps_flagged:
  "json_dumps recorded_libs (plaintext_data ''a@b.com'' ''pw37642009'') = Inr flagged_json"
  using plaintext_data_differ by (simp add: recorded_libs_def recorded_def)

lemma rec_deflate_flagged:
  "deflate_raw recorded_libs (utf8_encode flagged_json) = Inr flagged_deflated"
proof -
  have "utf8_encode example_json \<noteq> utf8_encode flagged_json"
    by (simp add: example_json_def flagged_json_def utf8_encode_def utf8_char_def)
  then show ?thesis
    by (simp add: recorded_libs_def recorded_def)
qed

lemma rec_encrypt_flagged:
  "aes_cbc_encrypt recorded_libs fixed_key_bytes fixed_iv_bytes (padded_bytes_of flagged_deflated)
     = Inr flagged_encrypted"
proof -
  have "padded_bytes_of example_deflated \<noteq> padded_bytes_of flagged_deflated"
    by (simp add: padded_bytes_of_def example_deflated_def flagged_deflated_def)
  then show ?thesis
    using key_iv_bytes_differ(2) by (simp add: recorded_libs_def recorded_def)
qed

lemma rec_encrypt_example_aes128:
  "aes_cbc_encrypt recorded_libs (take 16 fixed_key_bytes) fixed_iv_bytes
     (padded_bytes_of example_deflated) = Inr example_encrypted_aes128"
  using key_iv_bytes_differ(2) by (simp add: recorded_libs_def recorded_def)

lemma encrypt_try_example:
  "encrypt_aes_try recorded_libs (plaintext_data ''a@b.com'' ''x'') fixed_key fixed_iv
     = Inr (b64encode example_encrypted)"
  by (simp add: encrypt_aes_try_def Let_def utf8_fixed_key utf8_fixed_iv rec_dumps_example
      rec_deflate_example rec_encrypt_example)

lemma encrypt_first16_example:
  "encrypt_aes_first16 recorded_libs (plaintext_data ''a@b.com'' ''x'') fixed_key fixed_iv
     = Inr (b64encode example_encrypted_aes128)"
  by (simp add: encrypt_aes_first16_def Let_def utf8_fixed_key utf8_fixed_iv rec_dumps_example
      rec_deflate_example rec_encrypt_example_aes128)

lemma encrypt_try_flagged:
  "encrypt_aes_try recorded_libs (plaintext_data ''a@b.com'' ''pw37642009'') fixed_key fixed_iv
     = Inr (b64encode flagged_encrypted)"
  by (simp add: encrypt_aes_try_def Let_def utf8_fixed_key utf8_fixed_iv rec_dumps_flagged
      rec_deflate_flagged rec_encrypt_flagged)

lemma rec_http_stub:
  "http_post_json recorded_libs stub_url
     (request_body_of (b64encode example_encrypted) (b64encode rsa_key_ciphertext)
        (b64encode rsa_iv_ciphertext))
   = Inr (PDict [(''data'', PStr (b64encode token_encrypted))])"
  by (simp add: recorded_libs_def recorded_def)

lemma b64encode_eq_Nil: "b64encode bs = [] \<longleftrightarrow> bs = []" "[] = b64encode bs \<longleftrightarrow> bs = []"
  by (cases bs rule: b64encode.cases; simp)+


section \<open>The driver in general\<close>






section \<open>The request driver\<close>

lemma encrypt_payload_example:
  "encrypt_aes_payload recorded_libs (plaintext_data ''a@b.com'' ''x'') fixed_key fixed_iv
     = b64encode example_encrypted"
  by (simp add: encrypt_aes_payload_def encrypt_try_example)

lemma encrypt_payload_flagged:
  "encrypt_aes_payload recorded_libs (plaintext_data ''a@b.com'' ''pw37642009'') fixed_key fixed_iv
     = b64encode flagged_encrypted"
  by (simp add: encrypt_aes_payload_def encrypt_try_flagged)

lemma perform_request_flagged:
  assumes "encryption_failed
             (encrypt_aes_payload L (plaintext_data username password) fixed_key fixed_iv)
             (encrypt_rsa L fixed_key) (encrypt_rsa L fixed_iv)"
  shows "perform_request L username password url
         = (False, username @ '':'' @ password,
            PDict [(''error'', PStr ''Encryption failed during payload creation.'')])"
  using assms by (simp add: perform_request_def perform_try_def)

lemma perform_try_sent:
  assumes "\<not> encryption_failed
             (encrypt_aes_payload L (plaintext_data username password) fixed_key fixed_iv)
             (encrypt_rsa L fixed_key) (encrypt_rsa L fixed_iv)"
  shows "perform_try L username password url
         = send_and_classify L url
             (request_body_of
                (encrypt_aes_payload L (plaintext_data username password) fixed_key fixed_iv)
                (encrypt_rsa L fixed_key) (encrypt_rsa L fixed_iv))"
  using assms by (simp add: perform_try_def)

lemma example_request_not_flagged:
  "\<not> encryption_failed
       (encrypt_aes_payload recorded_libs (plaintext_data ''a@b.com'' ''x'') fixed_key fixed_iv)
       (encrypt_rsa recorded_libs fixed_key) (encrypt_rsa recorded_libs fixed_iv)"
  by (simp add: encryption_failed_def encrypt_payload_example encrypt_rsa_recorded
      example_not_flagged rsa_key_not_flagged rsa_iv_not_flagged)

text \<open>A transport failure, or a response body that is no JSON object, is no hit.\<close>

lemma no_hit_without_object:
  assumes "http_post_json L url
             (request_body_of
                (encrypt_aes_payload L (plaintext_data username password) fixed_key fixed_iv)
                (encrypt_rsa L fixed_key) (encrypt_rsa L fixed_iv)) = r"
    and "\<forall>items. r \<noteq> Inr (PDict items)"
  shows "\<not> fst (perform_request L username password url)"
proof (cases "encryption_failed
             (encrypt_aes_payload L (plaintext_data username password) fixed_key fixed_iv)
             (encrypt_rsa L fixed_key) (encrypt_rsa L fixed_iv)")
  case True
  then show ?thesis
    by (simp add: perform_request_flagged)
next
  case False
  have "\<exists>e. send_and_classify L url
             (request_body_of
                (encrypt_aes_payload L (plaintext_data username password) fixed_key fixed_iv)
                (encrypt_rsa L fixed_key) (encrypt_rsa L fixed_iv)) = Inl e"
    using assms by (cases r) (auto simp: send_and_classify_def py_get_def split: pyval.splits)
  then show ?thesis
    by (auto simp: perform_request_def perform_try_sent [OF False])
qed



section \<open>The encryption-failure check\<close>

text \<open>The encoder's error value is no base64 text, and the driver's check finds it.\<close>

lemma error_value_is_no_envelope: "''AES Encryption Error: '' @ m \<noteq> b64encode bs"
proof
  assume eq: "''AES Encryption Error: '' @ m = b64encode bs"
  have "CHR '' '' \<in> set (''AES Encryption Error: '' @ m)"
    by simp
  then have "CHR '' '' \<in> set (b64encode bs)"
    by (simp only: eq)
  with b64encode_chars [of bs] space_notin_alphabet show False
    by auto
qed

lemma error_value_is_flagged: "sublist ''Error'' (''AES Encryption Error: '' @ m)"
proof -
  have "''AES Encryption Error: '' @ m = ''AES Encryption '' @ ''Error'' @ ('': '' @ m)"
    by simp
  then show ?thesis
    by (simp only: sublist_appendI)
qed

lemma encoder_failure_aborts:
  assumes "encrypt_aes_try L (plaintext_data username password) fixed_key fixed_iv = Inl e"
  shows "perform_request L username password url
         = (False, username @ '':'' @ password,
            PDict [(''error'', PStr ''Encryption failed during payload creation.'')])"
proof -
  have "encrypt_aes_payload L (plaintext_data username password) fixed_key fixed_iv
      = ''AES Encryption Error: '' @ exn_text e"
    by (simp add: encrypt_aes_payload_def assms)
  then have "sublist ''Error''
      (encrypt_aes_payload L (plaintext_data username password) fixed_key fixed_iv)"
    by (simp only: error_value_is_flagged)
  then have "encryption_failed
      (encrypt_aes_payload L (plaintext_data username password) fixed_key fixed_iv)
      (encrypt_rsa L fixed_key) (encrypt_rsa L fixed_iv)"
    unfolding encryption_failed_def by (rule disjI1)
  then show ?thesis
    by (rule perform_request_flagged)
qed

lemma Error_in_a_block:
  "sublist ''Error'' (b64encode [0x12, 0xBA, 0xE8, 0xAC, 0, 0, 0, 0, 0, 0, 0, 0, 0, 0, 0, 0])"
proof -
  have "b64encode [0x12, 0xBA, 0xE8, 0xAC, 0, 0, 0, 0, 0, 0, 0, 0, 0, 0, 0, 0]
      = [] @ ''Error'' @ ''AAAAAAAAAAAAAAAAA==''"
    by (simp add: b64_char_def b64_alphabet_def)
  then show ?thesis
    by (simp only: sublist_appendI)
qed

lemma is_hit_token_envelope: "is_hit_of recorded_libs (PStr (b64encode token_encrypted))"
proof -
  have "token_encrypted \<noteq> []"
    by (simp add: token_encrypted_def)
  then have "truthy (PStr (b64encode token_encrypted))"
    by (simp add: b64encode_eq_Nil)
  then show ?thesis
    by (simp add: is_hit_of_def decrypt_token_envelope token_record_def dict_get_def)
qed

lemma send_and_classify_example:
  "send_and_classify recorded_libs stub_url
     (request_body_of
        (encrypt_aes_payload recorded_libs (plaintext_data ''a@b.com'' ''x'') fixed_key fixed_iv)
        (encrypt_rsa recorded_libs fixed_key) (encrypt_rsa recorded_libs fixed_iv))
   = Inr (True, PDict [(''data'', PStr (b64encode token_encrypted))])"
proof -
  have "py_get recorded_libs (PDict [(''data'', PStr (b64encode token_encrypted))]) ''data''
      = Inr (PStr (b64encode token_encrypted))"
    by (simp add: py_get_def dict_get_def)
  then show ?thesis
    by (simp add: send_and_classify_def encrypt_payload_example encrypt_rsa_recorded rec_http_stub
        is_hit_token_envelope)
qed

text \<open>
  Claim C7, at the input where it fails. The encoder succeeds on the record of
  \<^verbatim>\<open>a@b.com\<close> and \<^verbatim>\<open>pw37642009\<close>, its base64 text holds \<^verbatim>\<open>Error\<close> at index 202, and the
  driver aborts the attempt as an encryption failure.
\<close>

theorem valid_envelope_reported_as_failure:
  "encrypt_aes_try recorded_libs (plaintext_data ''a@b.com'' ''pw37642009'') fixed_key fixed_iv
     = Inr (b64encode flagged_encrypted)
   \<and> take 5 (drop 202 (b64encode flagged_encrypted)) = ''Error''
   \<and> perform_request recorded_libs ''a@b.com'' ''pw37642009'' stub_url
       = (False, ''a@b.com:pw37642009'',
          PDict [(''error'', PStr ''Encryption failed during payload creation.'')])"
proof -
  have "encryption_failed
      (encrypt_aes_payload recorded_libs (plaintext_data ''a@b.com'' ''pw37642009'')
         fixed_key fixed_iv)
      (encrypt_rsa recorded_libs fixed_key) (encrypt_rsa recorded_libs fixed_iv)"
    unfolding encryption_failed_def encrypt_payload_flagged
    by (rule disjI1) (rule flagged_has_Error)
  then have "perform_request recorded_libs ''a@b.com'' ''pw37642009'' stub_url
       = (False, ''a@b.com'' @ '':'' @ ''pw37642009'',
          PDict [(''error'', PStr ''Encryption failed during payload creation.'')])"
    by (rule perform_request_flagged)
  moreover have "take 5 (drop 202 (b64encode flagged_encrypted)) = ''Error''"
    unfolding b64_flagged by simp
  ultimately show ?thesis
    by (simp add: encrypt_try_flagged)
qed

text \<open>
  Claim C10. The driver's check is three substring tests for \<^verbatim>\<open>Error\<close>, on the encoder's
  string and on the two RSA strings. When one of them holds, the attempt ends with the error
  \<^verbatim>\<open>Encryption failed during payload creation.\<close>; when none holds, the request is sent. The
  test does not tell an error value from an envelope: \<^verbatim>\<open>Error\<close> occurs in the base64 text of
  a 16-byte block, every successful encoding that holds it is aborted, and there are a user
  name and a password whose envelope, encoded without error, is.
\<close>

theorem encryption_check_is_substring_test:
  "(encryption_failed encrypted_data encrypted_key_rsa encrypted_iv_rsa \<longleftrightarrow>
      (\<exists>pre post. encrypted_data = pre @ ''Error'' @ post)
      \<or> (\<exists>pre post. encrypted_key_rsa = pre @ ''Error'' @ post)
      \<or> (\<exists>pre post. encrypted_iv_rsa = pre @ ''Error'' @ post))
   \<and> (encryption_failed
         (encrypt_aes_payload L (plaintext_data username password) fixed_key fixed_iv)
         (encrypt_rsa L fixed_key) (encrypt_rsa L fixed_iv) \<longrightarrow>
       perform_request L username password url
         = (False, username @ '':'' @ password,
            PDict [(''error'', PStr ''Encryption failed during payload creation.'')]))
   \<and> (\<not> encryption_failed
           (encrypt_aes_payload L (plaintext_data username password) fixed_key fixed_iv)
           (encrypt_rsa L fixed_key) (encrypt_rsa L fixed_iv) \<longrightarrow>
       perform_try L username password url
         = send_and_classify L url
             (request_body_of
                (encrypt_aes_payload L (plaintext_data username password) fixed_key fixed_iv)
                (encrypt_rsa L fixed_key) (encrypt_rsa L fixed_iv)))
   \<and> (encrypt_aes_try L (plaintext_data username password) fixed_key fixed_iv
         = Inr (b64encode encrypted_bytes)
       \<and> sublist ''Error'' (b64encode encrypted_bytes) \<longrightarrow>
       perform_request L username password url
         = (False, username @ '':'' @ password,
            PDict [(''error'', PStr ''Encryption failed during payload creation.'')]))
   \<and> (\<exists>block. length block = 16 \<and> sublist ''Error'' (b64encode block))
   \<and> (\<exists>u p bs.
         encrypt_aes_try recorded_libs (plaintext_data u p) fixed_key fixed_iv = Inr (b64encode bs)
         \<and> perform_request recorded_libs u p url
             = (False, u @ '':'' @ p,
                PDict [(''error'', PStr ''Encryption failed during payload creation.'')]))"
proof (intro conjI impI)
  show "encryption_failed encrypted_data encrypted_key_rsa encrypted_iv_rsa \<longleftrightarrow>
      (\<exists>pre post. encrypted_data = pre @ ''Error'' @ post)
      \<or> (\<exists>pre post. encrypted_key_rsa = pre @ ''Error'' @ post)
      \<or> (\<exists>pre post. encrypted_iv_rsa = pre @ ''Error'' @ post)"
    by (simp only: encryption_failed_def sublist_def)
next
  assume "encryption_failed
         (encrypt_aes_payload L (plaintext_data username password) fixed_key fixed_iv)
         (encrypt_rsa L fixed_key) (encrypt_rsa L fixed_iv)"
  then show "perform_request L username password url
         = (False, username @ '':'' @ password,
            PDict [(''error'', PStr ''Encryption failed during payload creation.'')])"
    by (rule perform_request_flagged)
next
  assume "\<not> encryption_failed
           (encrypt_aes_payload L (plaintext_data username password) fixed_key fixed_iv)
           (encrypt_rsa L fixed_key) (encrypt_rsa L fixed_iv)"
  then show "perform_try L username password url
         = send_and_classify L url
             (request_body_of
                (encrypt_aes_payload L (plaintext_data username password) fixed_key fixed_iv)
                (encrypt_rsa L fixed_key) (encrypt_rsa L fixed_iv))"
    by (rule perform_try_sent)
next
  assume a: "encrypt_aes_try L (plaintext_data username password) fixed_key fixed_iv
         = Inr (b64encode encrypted_bytes)
       \<and> sublist ''Error'' (b64encode encrypted_bytes)"
  then have "encrypt_aes_payload L (plaintext_data username password) fixed_key fixed_iv
      = b64encode encrypted_bytes"
    by (simp add: encrypt_aes_payload_def)
  with a have "encryption_failed
         (encrypt_aes_payload L (plaintext_data username password) fixed_key fixed_iv)
         (encrypt_rsa L fixed_key) (encrypt_rsa L fixed_iv)"
    unfolding encryption_failed_def by (intro disjI1) (simp only:)
  then show "perform_request L username password url
         = (False, username @ '':'' @ password,
            PDict [(''error'', PStr ''Encryption failed during payload creation.'')])"
    by (rule perform_request_flagged)
next
  show "\<exists>block. length block = 16 \<and> sublist ''Error'' (b64encode block)"
  proof (intro exI [of _ "[0x12, 0xBA, 0xE8, 0xAC, 0, 0, 0, 0, 0, 0, 0, 0, 0, 0, 0, 0]"] conjI)
    show "length [0x12, 0xBA, 0xE8, 0xAC, 0, 0, 0, 0, 0, 0, 0, 0, 0, 0, 0, 0 :: byte] = 16"
      by simp
    show "sublist ''Error''
        (b64encode [0x12, 0xBA, 0xE8, 0xAC, 0, 0, 0, 0, 0, 0, 0, 0, 0, 0, 0, 0])"
      by (rule Error_in_a_block)
  qed
next
  have "encryption_failed
      (encrypt_aes_payload recorded_libs (plaintext_data ''a@b.com'' ''pw37642009'')
         fixed_key fixed_iv)
      (encrypt_rsa recorded_libs fixed_key) (encrypt_rsa recorded_libs fixed_iv)"
    unfolding encryption_failed_def encrypt_payload_flagged
    by (rule disjI1) (rule flagged_has_Error)
  then have "perform_request recorded_libs ''a@b.com'' ''pw37642009'' url
       = (False, ''a@b.com'' @ '':'' @ ''pw37642009'',
          PDict [(''error'', PStr ''Encryption failed during payload creation.'')])"
    by (rule perform_request_flagged)
  with encrypt_try_flagged
  show "\<exists>u p bs.
         encrypt_aes_try recorded_libs (plaintext_data u p) fixed_key fixed_iv = Inr (b64encode bs)
         \<and> perform_request recorded_libs u p url
             = (False, u @ '':'' @ p,
                PDict [(''error'', PStr ''Encryption failed during payload creation.'')])"
    by (intro exI [of _ "''a@b.com''"] exI [of _ "''pw37642009''"] exI [of _ flagged_encrypted]
        conjI)
qed

theorem encryption_check_is_substring_test_witness:
  "encrypt_aes_try recorded_libs (plaintext_data ''a@b.com'' ''pw37642009'') fixed_key fixed_iv
     = Inr (b64encode flagged_encrypted)
   \<and> sublist ''Error'' (b64encode flagged_encrypted)
   \<and> perform_request recorded_libs ''a@b.com'' ''pw37642009'' stub_url
       = (False, ''a@b.com:pw37642009'',
          PDict [(''error'', PStr ''Encryption failed during payload creation.'')])
   \<and> \<not> encryption_failed
         (encrypt_aes_payload recorded_libs (plaintext_data ''a@b.com'' ''x'') fixed_key fixed_iv)
         (encrypt_rsa recorded_libs fixed_key) (encrypt_rsa recorded_libs fixed_iv)
   \<and> perform_request recorded_libs ''a@b.com'' ''x'' stub_url
       = (True, ''a@b.com:x'', PDict [(''data'', PStr (b64encode token_encrypted))])"
proof -
  note flagged = encryption_check_is_substring_test
    [of "[]" "[]" "[]" recorded_libs "''a@b.com''" "''pw37642009''" stub_url flagged_encrypted]
  note sent = encryption_check_is_substring_test
    [of "[]" "[]" "[]" recorded_libs "''a@b.com''" "''x''" stub_url "[]"]
  have a1: "encrypt_aes_try recorded_libs (plaintext_data ''a@b.com'' ''pw37642009'')
      fixed_key fixed_iv = Inr (b64encode flagged_encrypted)"
    by (rule encrypt_try_flagged)
  have a2: "sublist ''Error'' (b64encode flagged_encrypted)"
    by (rule flagged_has_Error)
  from flagged have "encrypt_aes_try recorded_libs (plaintext_data ''a@b.com'' ''pw37642009'')
        fixed_key fixed_iv = Inr (b64encode flagged_encrypted)
      \<and> sublist ''Error'' (b64encode flagged_encrypted) \<longrightarrow>
      perform_request recorded_libs ''a@b.com'' ''pw37642009'' stub_url
       = (False, ''a@b.com'' @ '':'' @ ''pw37642009'',
          PDict [(''error'', PStr ''Encryption failed during payload creation.'')])"
    by (elim conjE)
  with a1 a2 have r1: "perform_request recorded_libs ''a@b.com'' ''pw37642009'' stub_url
       = (False, ''a@b.com:pw37642009'',
          PDict [(''error'', PStr ''Encryption failed during payload creation.'')])"
    by simp
  from sent have "\<not> encryption_failed
         (encrypt_aes_payload recorded_libs (plaintext_data ''a@b.com'' ''x'') fixed_key fixed_iv)
         (encrypt_rsa recorded_libs fixed_key) (encrypt_rsa recorded_libs fixed_iv) \<longrightarrow>
      perform_try recorded_libs ''a@b.com'' ''x'' stub_url
      = send_and_classify recorded_libs stub_url
         (request_body_of
            (encrypt_aes_payload recorded_libs (plaintext_data ''a@b.com'' ''x'') fixed_key fixed_iv)
            (encrypt_rsa recorded_libs fixed_key) (encrypt_rsa recorded_libs fixed_iv))"
    by (elim conjE)
  with example_request_not_flagged
  have "perform_try recorded_libs ''a@b.com'' ''x'' stub_url
      = Inr (True, PDict [(''data'', PStr (b64encode token_encrypted))])"
    by (simp add: send_and_classify_example)
  then have r2: "perform_request recorded_libs ''a@b.com'' ''x'' stub_url
       = (True, ''a@b.com:x'', PDict [(''data'', PStr (b64encode token_encrypted))])"
    by (simp add: perform_request_def)
  show ?thesis
    by (intro conjI a1 a2 r1 example_request_not_flagged r2)
qed

section \<open>The key of the example\<close>

text \<open>
  Claim C8, as stated, fails. The 32 characters of the key string are 32 key bytes, not the
  first 16 of them, and on the example record the encoder's output (the recorded AES-256-CBC
  result under all 32 bytes) is not what it would be under the first 16 bytes as an AES-128
  key (the recorded AES-128-CBC result).
\<close>

theorem example_key_is_not_its_first_16_bytes:
  "length (utf8_encode fixed_key) = 32
   \<and> take 16 (utf8_encode fixed_key) \<noteq> utf8_encode fixed_key
   \<and> encrypt_aes_try recorded_libs (str_record example_fields) fixed_key fixed_iv
       = Inr (''u2u7et4tzk7esjYX303HDVljyz6MbZyGTRKaMnaj5Execo/BdT68YakHKV6ity2VMmW3a3'' @
         ''ntThCeX71a5rXyLc+lPwY/Yw2dqXn0j1NE+dPgHBOOf5G23QnoaNEZ9KxNsmPR8/PI29ZA'' @
         ''lCR7JvNHOM7p5sYM1JCr9qgikMx92BsrpC0SdLx1SOLnXtW6ocPruGbd58WwxU/uKfkJVU'' @
         ''WwiA=='')
   \<and> encrypt_aes_first16 recorded_libs (str_record example_fields) fixed_key fixed_iv
       = Inr (''gmE2YyP3ilss3WA3yZkpPsNO1OPgOTNkFoegXr/EkGqcblyXO7yQftgiXdsX31Yp0gQufy'' @
         ''BWvtcyyv6ChSUyzGK6sORt8Qmsd64SK0Ge42fw7ns3YzKladB2VBxnSl3LAxqa/Tn7IvBF'' @
         ''XmfzGaQDtW2V4MVj9exQGtG7LjQtiA4genxST2NHoDIMC1xgqUacHX00AGbCUTj6LXz5Wd'' @
         ''mVtQ=='')
   \<and> encrypt_aes_try recorded_libs (str_record example_fields) fixed_key fixed_iv
       \<noteq> encrypt_aes_first16 recorded_libs (str_record example_fields) fixed_key fixed_iv"
proof -
  have f1: "length (utf8_encode fixed_key) = 32"
    by (simp add: utf8_fixed_key key_iv_bytes_differ)
  have f2: "take 16 (utf8_encode fixed_key) \<noteq> utf8_encode fixed_key"
    by (simp add: utf8_fixed_key key_iv_bytes_differ)
  have f3: "encrypt_aes_try recorded_libs (str_record example_fields) fixed_key fixed_iv
       = Inr (''u2u7et4tzk7esjYX303HDVljyz6MbZyGTRKaMnaj5Execo/BdT68YakHKV6ity2VMmW3a3'' @
         ''ntThCeX71a5rXyLc+lPwY/Yw2dqXn0j1NE+dPgHBOOf5G23QnoaNEZ9KxNsmPR8/PI29ZA'' @
         ''lCR7JvNHOM7p5sYM1JCr9qgikMx92BsrpC0SdLx1SOLnXtW6ocPruGbd58WwxU/uKfkJVU'' @
         ''WwiA=='')"
    by (simp only: example_record_eq encrypt_try_example b64_example)
  have f4: "encrypt_aes_first16 recorded_libs (str_record example_fields) fixed_key fixed_iv
       = Inr (''gmE2YyP3ilss3WA3yZkpPsNO1OPgOTNkFoegXr/EkGqcblyXO7yQftgiXdsX31Yp0gQufy'' @
         ''BWvtcyyv6ChSUyzGK6sORt8Qmsd64SK0Ge42fw7ns3YzKladB2VBxnSl3LAxqa/Tn7IvBF'' @
         ''XmfzGaQDtW2V4MVj9exQGtG7LjQtiA4genxST2NHoDIMC1xgqUacHX00AGbCUTj6LXz5Wd'' @
         ''mVtQ=='')"
    by (simp only: example_record_eq encrypt_first16_example b64_example_aes128)
  have f5: "encrypt_aes_try recorded_libs (str_record example_fields) fixed_key fixed_iv
       \<noteq> encrypt_aes_first16 recorded_libs (str_record example_fields) fixed_key fixed_iv"
    unfolding f3 f4 by simp
  show ?thesis
    by (intro conjI f1 f2 f3 f4 f5)
qed

text \<open>
  Claim C8, amended. For the example record and the key string
  \<^verbatim>\<open>cfc0d8be37e5ca838da40740d6723a0f\<close>, the encoder hands the cipher all 32 bytes of that
  string as the key (a key of 32 bytes is an AES-256 key to the library) and the 16 bytes of
  \<^verbatim>\<open>7b242d789da2c4c7\<close> as the IV, and decoding the resulting base64 string gives the record
  back, when the libraries succeed on this run and invert one another there.
\<close>

theorem example_uses_whole_key:
  "utf8_encode fixed_key = fixed_key_bytes \<and> length fixed_key_bytes = 32
   \<and> utf8_encode fixed_iv = fixed_iv_bytes \<and> length fixed_iv_bytes = 16
   \<and> encrypt_aes_try L (str_record example_fields) fixed_key fixed_iv =
       (case json_dumps L (str_record example_fields) of
          Inl e \<Rightarrow> Inl e
        | Inr json_string \<Rightarrow>
            (case deflate_raw L (utf8_encode json_string) of
               Inl e \<Rightarrow> Inl e
             | Inr compressed_bytes \<Rightarrow>
                 (case aes_cbc_encrypt L fixed_key_bytes fixed_iv_bytes
                         (padded_bytes_of compressed_bytes) of
                    Inl e \<Rightarrow> Inl e
                  | Inr encrypted_bytes \<Rightarrow> Inr (b64encode encrypted_bytes))))
   \<and> (libs_invert L (str_record example_fields) fixed_key fixed_iv \<longrightarrow>
        decrypt_and_decompress_payload L
          (PStr (encrypt_aes_payload L (str_record example_fields) fixed_key fixed_iv))
          fixed_key fixed_iv
        = str_record example_fields)"
proof (intro conjI impI)
  show "utf8_encode fixed_key = fixed_key_bytes"
    by (rule utf8_fixed_key)
  show "length fixed_key_bytes = 32"
    by (rule key_iv_bytes_differ)
  show "utf8_encode fixed_iv = fixed_iv_bytes"
    by (rule utf8_fixed_iv)
  show "length fixed_iv_bytes = 16"
    by (rule key_iv_bytes_differ)
  show "encrypt_aes_try L (str_record example_fields) fixed_key fixed_iv =
       (case json_dumps L (str_record example_fields) of
          Inl e \<Rightarrow> Inl e
        | Inr json_string \<Rightarrow>
            (case deflate_raw L (utf8_encode json_string) of
               Inl e \<Rightarrow> Inl e
             | Inr compressed_bytes \<Rightarrow>
                 (case aes_cbc_encrypt L fixed_key_bytes fixed_iv_bytes
                         (padded_bytes_of compressed_bytes) of
                    Inl e \<Rightarrow> Inl e
                  | Inr encrypted_bytes \<Rightarrow> Inr (b64encode encrypted_bytes))))"
    unfolding encrypt_aes_try_def Let_def utf8_fixed_key utf8_fixed_iv by (rule refl)
next
  assume "libs_invert L (str_record example_fields) fixed_key fixed_iv"
  then show "decrypt_and_decompress_payload L
          (PStr (encrypt_aes_payload L (str_record example_fields) fixed_key fixed_iv))
          fixed_key fixed_iv
        = str_record example_fields"
    by (rule round_trip_general)
qed

theorem example_uses_whole_key_witness:
  "libs_invert recorded_libs (str_record example_fields) fixed_key fixed_iv
   \<and> aes_cbc_encrypt recorded_libs fixed_key_bytes fixed_iv_bytes
         (padded_bytes_of example_deflated) = Inr example_encrypted
   \<and> encrypt_aes_try recorded_libs (str_record example_fields) fixed_key fixed_iv
       = Inr (b64encode example_encrypted)
   \<and> decrypt_and_decompress_payload recorded_libs
        (PStr (encrypt_aes_payload recorded_libs (str_record example_fields) fixed_key fixed_iv))
        fixed_key fixed_iv
      = str_record example_fields"
proof -
  note inst = example_uses_whole_key [of recorded_libs]
  have h: "libs_invert recorded_libs (str_record example_fields) fixed_key fixed_iv"
    by (simp only: example_record_eq libs_invert_example)
  from inst have "libs_invert recorded_libs (str_record example_fields) fixed_key fixed_iv \<longrightarrow>
        decrypt_and_decompress_payload recorded_libs
          (PStr (encrypt_aes_payload recorded_libs (str_record example_fields) fixed_key fixed_iv))
          fixed_key fixed_iv
        = str_record example_fields"
    by (elim conjE)
  with h have r: "decrypt_and_decompress_payload recorded_libs
          (PStr (encrypt_aes_payload recorded_libs (str_record example_fields) fixed_key fixed_iv))
          fixed_key fixed_iv
        = str_record example_fields"
    by (rule rev_mp)
  have e: "encrypt_aes_try recorded_libs (str_record example_fields) fixed_key fixed_iv
       = Inr (b64encode example_encrypted)"
    by (simp only: example_record_eq encrypt_try_example)
  show ?thesis
    by (intro conjI h rec_encrypt_example e r)
qed

end
